theory Spec2Isabelle
  imports Main "HOL-Library.Word"
begin

section \<open>TwoBtnMidiController.ino: data model\<close>

text \<open>
  The sketch is a set of global variables and parameterless \<open>void\<close> functions that read and
  write them. The model is explicit state passing: the record \<open>globals\<close> holds every global
  variable, the state of the library objects the sketch owns (the two \<open>OneButton\<close> objects,
  the \<open>Fsm\<close>, the EEPROM cells) and the sequence of calls made to the output devices; each
  function of the sketch is a function \<open>globals \<Rightarrow> globals\<close>.

  \<open>byte\<close> is 8 bits, unsigned. \<open>int\<close> is the 16-bit two's complement \<open>int\<close> of the AVR
  boards the sketch is written for; \<open>++\<close> and \<open>--\<close> on it are modelled as wrapping
  (signed overflow is undefined in C++, the AVR compiler wraps). A \<open>byte\<close> used where an
  \<open>int\<close> is expected is zero-extended (\<open>ucast\<close>), an \<open>int\<close> passed where a \<open>byte\<close>
  is expected is truncated (\<open>ucast\<close>), comparisons of \<open>int\<close> are signed.
\<close>

type_synonym byte = "8 word"
type_synonym cint = "16 word"

subsection \<open>Constants\<close>

abbreviation (input) TO_RUN :: cint where "TO_RUN \<equiv> 1"
abbreviation (input) TO_SETUP_MODE :: cint where "TO_SETUP_MODE \<equiv> 2"
abbreviation (input) TO_SETUP_MIDI :: cint where "TO_SETUP_MIDI \<equiv> 3"
abbreviation (input) TO_SETUP_MODE1 :: cint where "TO_SETUP_MODE1 \<equiv> 4"
abbreviation (input) TO_SETUP_MODE1_LOW :: cint where "TO_SETUP_MODE1_LOW \<equiv> 4"
abbreviation (input) TO_SETUP_MODE1_HI :: cint where "TO_SETUP_MODE1_HI \<equiv> 5"
abbreviation (input) TO_SETUP_MODE2 :: cint where "TO_SETUP_MODE2 \<equiv> 6"
abbreviation (input) TO_SETUP_MODE2_BTN1 :: cint where "TO_SETUP_MODE2_BTN1 \<equiv> 7"
abbreviation (input) TO_SETUP_MODE2_BTN2 :: cint where "TO_SETUP_MODE2_BTN2 \<equiv> 8"
abbreviation (input) TO_SETUP_MODE3 :: cint where "TO_SETUP_MODE3 \<equiv> 9"
abbreviation (input) TO_SETUP_MODE3_BTN1_PC1 :: cint where "TO_SETUP_MODE3_BTN1_PC1 \<equiv> 10"
abbreviation (input) TO_SETUP_MODE3_BTN1_PC2 :: cint where "TO_SETUP_MODE3_BTN1_PC2 \<equiv> 11"
abbreviation (input) TO_SETUP_MODE3_BTN2_PC1 :: cint where "TO_SETUP_MODE3_BTN2_PC1 \<equiv> 12"
abbreviation (input) TO_SETUP_MODE3_BTN2_PC2 :: cint where "TO_SETUP_MODE3_BTN2_PC2 \<equiv> 13"
abbreviation (input) TO_SETUP_EXIT :: cint where "TO_SETUP_EXIT \<equiv> 14"
abbreviation (input) TO_SETUP_MODE_START :: cint where "TO_SETUP_MODE_START \<equiv> 15"

abbreviation (input) RUN_MODE1 :: cint where "RUN_MODE1 \<equiv> 1"
abbreviation (input) RUN_MODE2 :: cint where "RUN_MODE2 \<equiv> 2"
abbreviation (input) RUN_MODE3 :: cint where "RUN_MODE3 \<equiv> 3"

abbreviation (input) CONFIG_VERSION :: cint where "CONFIG_VERSION \<equiv> 1"
abbreviation (input) CONFIG_START_ADDRESS :: byte where "CONFIG_START_ADDRESS \<equiv> 0"

subsection \<open>The settings block\<close>

record settingsStruct =
  sversion :: byte
  midiChannel :: byte
  mode1_lowlimitPC :: byte
  mode1_highlimitPC :: byte
  mode2_btn1PC :: byte
  mode2_btn2PC :: byte
  mode3_btn1PC1 :: byte
  mode3_btn1PC2 :: byte
  mode3_btn2PC1 :: byte
  mode3_btn2PC2 :: byte

subsection \<open>Function pointers, states, library objects\<close>

text \<open>
  Every function of the sketch that is handed to \<open>attachClick\<close>, \<open>attachLongPressStart\<close> or
  \<open>attachLongPressStop\<close> has a name in \<open>callback\<close>; the constructor is the function's name
  with a capital.
\<close>

datatype callback =
    CyclePcDown | CyclePcUp
  | SendBtn1PC | SendBtn2PC
  | SendBtn1TogglePC | SendBtn2TogglePC
  | LongPressStart1 | LongPressStart2
  | LongPressFromRun
  | ModeDown | ModeUp
  | LongPressFromSetupMode
  | MidiChnDown | MidiChnUp
  | LongPressFromSetupMidi
  | LongPressFromSetupMode1
  | Mode1LowLimitDecrease | Mode1LowLimitIncrease
  | LongPressFromSetupMode1Low
  | Mode1HiLimitDecrease | Mode1HiLimitIncrease
  | LongPressFromSetupMode1Hi
  | LongPressFromSetupMode2
  | Mode2Btn1Decrease | Mode2Btn1Increase
  | LongPressFromSetupMode2Btn1
  | Mode2Btn2Decrease | Mode2Btn2Increase
  | LongPressFromSetupMode2Btn2
  | LongPressFromSetupMode3
  | LongPressToRun
  | NullClick

datatype State =
    state_init
  | state_run
  | state_setup_mode
  | state_setup_midi
  | state_setup_mode1
  | state_setup_mode1_low
  | state_setup_mode1_hi
  | state_setup_mode2_btn1
  | state_setup_mode2_btn2
  | state_setup_mode3_btn1PC1
  | state_setup_mode3_btn1PC2
  | state_setup_mode3_btn2PC1
  | state_setup_mode3_btn2PC2
  | state_setup_mode2
  | state_setup_mode3
  | state_setup_exit

text \<open>
  Modelled from the spec: the OneButton library is not part of the sources. An object keeps
  one function pointer per event kind, null until attached; an attach call overwrites it.
\<close>

record OneButton =
  clickFunc :: "callback option"
  longPressStartFunc :: "callback option"
  longPressStopFunc :: "callback option"

definition attachClick :: "callback \<Rightarrow> OneButton \<Rightarrow> OneButton" where
  "attachClick f b = b\<lparr>clickFunc := Some f\<rparr>"

definition attachLongPressStart :: "callback \<Rightarrow> OneButton \<Rightarrow> OneButton" where
  "attachLongPressStart f b = b\<lparr>longPressStartFunc := Some f\<rparr>"

definition attachLongPressStop :: "callback \<Rightarrow> OneButton \<Rightarrow> OneButton" where
  "attachLongPressStop f b = b\<lparr>longPressStopFunc := Some f\<rparr>"

text \<open>
  Modelled from the spec: the Fsm library is not part of the sources. The machine keeps its
  current state and whether \<open>run_machine\<close> has run once.
\<close>

record Fsm =
  m_current_state :: State
  m_initialized :: bool

text \<open>
  The calls the sketch makes to its output devices, in the order made:
  \<open>segDisp.setChars\<close>, \<open>segDisp.setNumber\<close>, \<open>segDisp.begin\<close>, \<open>segDisp.setBrightness\<close>,
  \<open>MIDI.begin\<close>, \<open>MIDI.sendProgramChange\<close>, \<open>EEPROM.put\<close> and \<open>delay\<close>. They are kept in
  the field \<open>trace\<close> of the globals. The field \<open>triggered\<close> keeps, apart from them, the
  codes the sketch passes to \<open>main_fsm.trigger\<close>, in the order of the calls, whether or not
  the machine has a transition for them.
\<close>

datatype effect =
    SetChars string
  | SetNumber cint cint
  | SegDispBegin
  | SetBrightness cint
  | MidiBegin byte
  | SendProgramChange byte byte
  | EepromPut byte settingsStruct
  | Delay cint

record globals =
  mode1_currentPC :: cint
  mode3_current_btn1PC :: cint
  mode3_current_btn2PC :: cint
  btn1_state :: cint
  btn2_state :: cint
  run_mode :: cint
  settings :: settingsStruct
  btn1 :: OneButton
  btn2 :: OneButton
  main_fsm :: Fsm
  EEPROM :: "nat \<Rightarrow> byte"
  trace :: "effect list"
  triggered :: "cint list"

section \<open>Display\<close>

text \<open>\<open>String(int)\<close>: the decimal digits, with a minus sign for a negative number.\<close>

fun dec_digits :: "nat \<Rightarrow> string" where
  "dec_digits n =
     (if n < 10 then [''0123456789'' ! n]
      else dec_digits (n div 10) @ [''0123456789'' ! (n mod 10)])"

declare dec_digits.simps [simp del]

definition String_of :: "cint \<Rightarrow> string" where
  "String_of no =
     (if sint no < 0 then CHR ''-'' # dec_digits (nat (- sint no))
      else dec_digits (nat (sint no)))"

text \<open>
  \<open>updateDisplay(String str, int no)\<close>. \<open>substring(0, k)\<close> is the first \<open>k\<close> characters,
  \<open>toCharArray(msg, 5)\<close> keeps at most four.
\<close>

definition updateDisplay_no :: "string \<Rightarrow> cint \<Rightarrow> globals \<Rightarrow> globals" where
  "updateDisplay_no str no s =
     (let strMsg =
        (if no <s 10 then take 2 str @ '' '' @ String_of no
         else if 10 \<le>s no \<and> no <s 100 then take 2 str @ String_of no
         else take 1 str @ String_of no)
      in s\<lparr>trace := trace s @ [SetChars (take 4 strMsg)]\<rparr>)"

text \<open>\<open>updateDisplay(String str)\<close>.\<close>

definition updateDisplay :: "string \<Rightarrow> globals \<Rightarrow> globals" where
  "updateDisplay str s =
     (let strMsg = take 4 str
      in s\<lparr>trace := trace s @ [SetChars (take 4 strMsg)]\<rparr>)"

definition setDisplay :: "globals \<Rightarrow> globals" where
  "setDisplay s = s\<lparr>trace := trace s @ [SegDispBegin, SetBrightness 90]\<rparr>"

section \<open>Run mode click handlers\<close>

text \<open>\<open>MIDI.sendProgramChange(pc, channel)\<close> takes two bytes.\<close>

definition sendProgramChange :: "byte \<Rightarrow> byte \<Rightarrow> globals \<Rightarrow> globals" where
  "sendProgramChange pc ch s = s\<lparr>trace := trace s @ [SendProgramChange pc ch]\<rparr>"

definition cyclePcDown :: "globals \<Rightarrow> globals" where
  "cyclePcDown s =
     (let s1 = (if mode1_currentPC s = ucast (mode1_lowlimitPC (settings s))
                then s\<lparr>mode1_currentPC := ucast (mode1_highlimitPC (settings s))\<rparr>
                else s\<lparr>mode1_currentPC := mode1_currentPC s - 1\<rparr>);
          s2 = updateDisplay_no ''PC'' (mode1_currentPC s1) s1
      in sendProgramChange (ucast (mode1_currentPC s2)) (midiChannel (settings s2)) s2)"

definition cyclePcUp :: "globals \<Rightarrow> globals" where
  "cyclePcUp s =
     (let s1 = (if mode1_currentPC s = ucast (mode1_highlimitPC (settings s))
                then s\<lparr>mode1_currentPC := ucast (mode1_lowlimitPC (settings s))\<rparr>
                else s\<lparr>mode1_currentPC := mode1_currentPC s + 1\<rparr>);
          s2 = updateDisplay_no ''PC'' (mode1_currentPC s1) s1
      in sendProgramChange (ucast (mode1_currentPC s2)) (midiChannel (settings s2)) s2)"

definition sendBtn1PC :: "globals \<Rightarrow> globals" where
  "sendBtn1PC s =
     (let s1 = updateDisplay_no ''PC'' (ucast (mode2_btn1PC (settings s))) s
      in sendProgramChange (mode2_btn1PC (settings s1)) (midiChannel (settings s1)) s1)"

definition sendBtn2PC :: "globals \<Rightarrow> globals" where
  "sendBtn2PC s =
     (let s1 = updateDisplay_no ''PC'' (ucast (mode2_btn2PC (settings s))) s
      in sendProgramChange (mode2_btn2PC (settings s1)) (midiChannel (settings s1)) s1)"

definition sendBtn1TogglePC :: "globals \<Rightarrow> globals" where
  "sendBtn1TogglePC s =
     (let s1 = (if mode3_current_btn1PC s = ucast (mode3_btn1PC1 (settings s))
                then s\<lparr>mode3_current_btn1PC := ucast (mode3_btn1PC2 (settings s))\<rparr>
                else s\<lparr>mode3_current_btn1PC := ucast (mode3_btn1PC1 (settings s))\<rparr>);
          s2 = updateDisplay_no ''PC'' (mode3_current_btn1PC s1) s1
      in sendProgramChange (ucast (mode3_current_btn1PC s2)) (midiChannel (settings s2)) s2)"

definition sendBtn2TogglePC :: "globals \<Rightarrow> globals" where
  "sendBtn2TogglePC s =
     (let s1 = (if mode3_current_btn2PC s = ucast (mode3_btn2PC1 (settings s))
                then s\<lparr>mode3_current_btn2PC := ucast (mode3_btn2PC2 (settings s))\<rparr>
                else s\<lparr>mode3_current_btn2PC := ucast (mode3_btn2PC1 (settings s))\<rparr>);
          s2 = updateDisplay_no ''PC'' (mode3_current_btn2PC s1) s1
      in sendProgramChange (ucast (mode3_current_btn2PC s2)) (midiChannel (settings s2)) s2)"

definition longPressStart1 :: "globals \<Rightarrow> globals" where
  "longPressStart1 s = s\<lparr>btn1_state := 1\<rparr>"

definition longPressStart2 :: "globals \<Rightarrow> globals" where
  "longPressStart2 s = s\<lparr>btn2_state := 1\<rparr>"

section \<open>Setup click handlers\<close>

text \<open>
  The edited fields are bytes: \<open>--\<close> and \<open>++\<close> on them wrap modulo 256, and comparing a
  byte with a literal after integer promotion is comparing the byte.
\<close>

definition modeDown :: "globals \<Rightarrow> globals" where
  "modeDown s =
     (let s1 = (if run_mode s = RUN_MODE1 then s\<lparr>run_mode := RUN_MODE3\<rparr>
                else if RUN_MODE1 <s run_mode s then s\<lparr>run_mode := run_mode s - 1\<rparr>
                else s)
      in updateDisplay_no ''op'' (run_mode s1) s1)"

definition modeUp :: "globals \<Rightarrow> globals" where
  "modeUp s =
     (let s1 = (if run_mode s = RUN_MODE3 then s\<lparr>run_mode := RUN_MODE1\<rparr>
                else if run_mode s <s RUN_MODE3 then s\<lparr>run_mode := run_mode s + 1\<rparr>
                else s)
      in updateDisplay_no ''op'' (run_mode s1) s1)"

definition midiChnDown :: "globals \<Rightarrow> globals" where
  "midiChnDown s =
     (let s1 = (if midiChannel (settings s) = 1
                then s\<lparr>settings := (settings s)\<lparr>midiChannel := 16\<rparr>\<rparr>
                else s\<lparr>settings := (settings s)\<lparr>midiChannel := midiChannel (settings s) - 1\<rparr>\<rparr>)
      in updateDisplay_no ''ch'' (ucast (midiChannel (settings s1))) s1)"

definition midiChnUp :: "globals \<Rightarrow> globals" where
  "midiChnUp s =
     (let s1 = (if midiChannel (settings s) = 16
                then s\<lparr>settings := (settings s)\<lparr>midiChannel := 1\<rparr>\<rparr>
                else s\<lparr>settings := (settings s)\<lparr>midiChannel := midiChannel (settings s) + 1\<rparr>\<rparr>)
      in updateDisplay_no ''ch'' (ucast (midiChannel (settings s1))) s1)"

definition mode1LowLimitDecrease :: "globals \<Rightarrow> globals" where
  "mode1LowLimitDecrease s =
     (let s1 = (if mode1_lowlimitPC (settings s) = 0
                then s\<lparr>settings := (settings s)\<lparr>mode1_lowlimitPC := 127\<rparr>\<rparr>
                else s\<lparr>settings := (settings s)\<lparr>mode1_lowlimitPC := mode1_lowlimitPC (settings s) - 1\<rparr>\<rparr>)
      in updateDisplay_no ''PC'' (ucast (mode1_lowlimitPC (settings s1))) s1)"

definition mode1LowLimitIncrease :: "globals \<Rightarrow> globals" where
  "mode1LowLimitIncrease s =
     (let s1 = (if mode1_lowlimitPC (settings s) = 127
                then s\<lparr>settings := (settings s)\<lparr>mode1_lowlimitPC := 0\<rparr>\<rparr>
                else s\<lparr>settings := (settings s)\<lparr>mode1_lowlimitPC := mode1_lowlimitPC (settings s) + 1\<rparr>\<rparr>)
      in updateDisplay_no ''PC'' (ucast (mode1_lowlimitPC (settings s1))) s1)"

definition mode1HiLimitDecrease :: "globals \<Rightarrow> globals" where
  "mode1HiLimitDecrease s =
     (let s1 = (if mode1_highlimitPC (settings s) = 0
                then s\<lparr>settings := (settings s)\<lparr>mode1_highlimitPC := 127\<rparr>\<rparr>
                else s\<lparr>settings := (settings s)\<lparr>mode1_highlimitPC := mode1_highlimitPC (settings s) - 1\<rparr>\<rparr>)
      in updateDisplay_no ''PC'' (ucast (mode1_highlimitPC (settings s1))) s1)"

definition mode1HiLimitIncrease :: "globals \<Rightarrow> globals" where
  "mode1HiLimitIncrease s =
     (let s1 = (if mode1_highlimitPC (settings s) = 127
                then s\<lparr>settings := (settings s)\<lparr>mode1_highlimitPC := 0\<rparr>\<rparr>
                else s\<lparr>settings := (settings s)\<lparr>mode1_highlimitPC := mode1_highlimitPC (settings s) + 1\<rparr>\<rparr>)
      in updateDisplay_no ''PC'' (ucast (mode1_highlimitPC (settings s1))) s1)"

definition mode2Btn1Decrease :: "globals \<Rightarrow> globals" where
  "mode2Btn1Decrease s =
     (let s1 = (if mode2_btn1PC (settings s) = 0
                then s\<lparr>settings := (settings s)\<lparr>mode2_btn1PC := 127\<rparr>\<rparr>
                else s\<lparr>settings := (settings s)\<lparr>mode2_btn1PC := mode2_btn1PC (settings s) - 1\<rparr>\<rparr>)
      in updateDisplay_no ''PC'' (ucast (mode2_btn1PC (settings s1))) s1)"

definition mode2Btn1Increase :: "globals \<Rightarrow> globals" where
  "mode2Btn1Increase s =
     (let s1 = (if mode2_btn1PC (settings s) = 127
                then s\<lparr>settings := (settings s)\<lparr>mode2_btn1PC := 0\<rparr>\<rparr>
                else s\<lparr>settings := (settings s)\<lparr>mode2_btn1PC := mode2_btn1PC (settings s) + 1\<rparr>\<rparr>)
      in updateDisplay_no ''PC'' (ucast (mode2_btn1PC (settings s1))) s1)"

definition mode2Btn2Decrease :: "globals \<Rightarrow> globals" where
  "mode2Btn2Decrease s =
     (let s1 = (if mode2_btn2PC (settings s) = 0
                then s\<lparr>settings := (settings s)\<lparr>mode2_btn2PC := 127\<rparr>\<rparr>
                else s\<lparr>settings := (settings s)\<lparr>mode2_btn2PC := mode2_btn2PC (settings s) - 1\<rparr>\<rparr>)
      in updateDisplay_no ''PC'' (ucast (mode2_btn2PC (settings s1))) s1)"

definition mode2Btn2Increase :: "globals \<Rightarrow> globals" where
  "mode2Btn2Increase s =
     (let s1 = (if mode2_btn2PC (settings s) = 127
                then s\<lparr>settings := (settings s)\<lparr>mode2_btn2PC := 0\<rparr>\<rparr>
                else s\<lparr>settings := (settings s)\<lparr>mode2_btn2PC := mode2_btn2PC (settings s) + 1\<rparr>\<rparr>)
      in updateDisplay_no ''PC'' (ucast (mode2_btn2PC (settings s1))) s1)"

definition nullClick :: "globals \<Rightarrow> globals" where
  "nullClick s = s"

section \<open>Entry and exit actions of the states\<close>

text \<open>
  \<open>on_init_enter\<close> shows \<open>VERSION.toFloat() * 10\<close> as an \<open>int\<close>, with one decimal place;
  the floating-point product of the constant \<open>"0.1"\<close> is taken as the \<open>int\<close> 1.
\<close>

definition on_init_enter :: "globals \<Rightarrow> globals" where
  "on_init_enter s = s\<lparr>trace := trace s @ [SetNumber 1 1]\<rparr>"

definition on_run_enter :: "globals \<Rightarrow> globals" where
  "on_run_enter s =
     (let s1 =
        (if run_mode s = RUN_MODE1
         then s\<lparr>btn1 := attachClick CyclePcDown (btn1 s), btn2 := attachClick CyclePcUp (btn2 s)\<rparr>
         else if run_mode s = RUN_MODE2
         then s\<lparr>btn1 := attachClick SendBtn1PC (btn1 s), btn2 := attachClick SendBtn2PC (btn2 s)\<rparr>
         else if run_mode s = RUN_MODE3
         then s\<lparr>btn1 := attachClick SendBtn1TogglePC (btn1 s),
                 btn2 := attachClick SendBtn2TogglePC (btn2 s)\<rparr>
         else s);
          s2 = updateDisplay_no ''op'' (run_mode s1) s1
      in s2\<lparr>btn1 := attachLongPressStop LongPressFromRun
                     (attachLongPressStart LongPressStart1 (btn1 s2)),
            btn2 := attachLongPressStop LongPressFromRun
                     (attachLongPressStart LongPressStart2 (btn2 s2))\<rparr>)"

definition on_setup_mode_enter :: "globals \<Rightarrow> globals" where
  "on_setup_mode_enter s =
     updateDisplay ''s op''
       (s\<lparr>btn1 := attachLongPressStop LongPressFromSetupMode (attachClick ModeDown (btn1 s)),
          btn2 := attachLongPressStop LongPressFromSetupMode (attachClick ModeUp (btn2 s))\<rparr>)"

definition on_setup_midi_enter :: "globals \<Rightarrow> globals" where
  "on_setup_midi_enter s =
     updateDisplay ''s nd''
       (s\<lparr>btn1 := attachLongPressStop LongPressFromSetupMidi (attachClick MidiChnDown (btn1 s)),
          btn2 := attachLongPressStop LongPressFromSetupMidi (attachClick MidiChnUp (btn2 s))\<rparr>)"

definition on_setup_mode1_enter :: "globals \<Rightarrow> globals" where
  "on_setup_mode1_enter s =
     updateDisplay ''s n1''
       (s\<lparr>btn1 := attachLongPressStop LongPressFromSetupMode1 (attachClick NullClick (btn1 s)),
          btn2 := attachLongPressStop LongPressFromSetupMode1 (attachClick NullClick (btn2 s))\<rparr>)"

definition on_setup_mode1_low_enter :: "globals \<Rightarrow> globals" where
  "on_setup_mode1_low_enter s =
     updateDisplay ''S LO''
       (s\<lparr>btn1 := attachLongPressStop LongPressFromSetupMode1Low (attachClick Mode1LowLimitDecrease (btn1 s)),
          btn2 := attachLongPressStop LongPressFromSetupMode1Low (attachClick Mode1LowLimitIncrease (btn2 s))\<rparr>)"

text \<open>Only button 1 gets a long-press-stop handler here.\<close>

definition on_setup_mode1_hi_enter :: "globals \<Rightarrow> globals" where
  "on_setup_mode1_hi_enter s =
     updateDisplay ''S HI''
       (s\<lparr>btn1 := attachLongPressStop LongPressFromSetupMode1Hi
                   (attachClick Mode1HiLimitDecrease (btn1 s)),
          btn2 := attachClick Mode1HiLimitIncrease (btn2 s)\<rparr>)"

definition on_setup_mode2_enter :: "globals \<Rightarrow> globals" where
  "on_setup_mode2_enter s =
     updateDisplay ''s n2''
       (s\<lparr>btn1 := attachLongPressStop LongPressFromSetupMode2 (attachClick NullClick (btn1 s)),
          btn2 := attachLongPressStop LongPressFromSetupMode2 (attachClick NullClick (btn2 s))\<rparr>)"

definition on_setup_mode2_btn1_enter :: "globals \<Rightarrow> globals" where
  "on_setup_mode2_btn1_enter s =
     updateDisplay ''s b1''
       (s\<lparr>btn1 := attachLongPressStop LongPressFromSetupMode2Btn1 (attachClick Mode2Btn1Decrease (btn1 s)),
          btn2 := attachLongPressStop LongPressFromSetupMode2Btn1 (attachClick Mode2Btn1Increase (btn2 s))\<rparr>)"

definition on_setup_mode2_btn2_enter :: "globals \<Rightarrow> globals" where
  "on_setup_mode2_btn2_enter s =
     updateDisplay ''s b2''
       (s\<lparr>btn1 := attachLongPressStop LongPressFromSetupMode2Btn2 (attachClick Mode2Btn2Decrease (btn1 s)),
          btn2 := attachLongPressStop LongPressFromSetupMode2Btn2 (attachClick Mode2Btn2Increase (btn2 s))\<rparr>)"

definition on_setup_mode3_enter :: "globals \<Rightarrow> globals" where
  "on_setup_mode3_enter s =
     updateDisplay ''s n3''
       (s\<lparr>btn1 := attachLongPressStop LongPressFromSetupMode3 (btn1 s),
          btn2 := attachLongPressStop LongPressFromSetupMode3 (btn2 s)\<rparr>)"

definition on_setup_mode3_btn1PC1_enter :: "globals \<Rightarrow> globals" where
  "on_setup_mode3_btn1PC1_enter s = s"

definition on_setup_mode3_btn1PC2_enter :: "globals \<Rightarrow> globals" where
  "on_setup_mode3_btn1PC2_enter s = s"

definition on_setup_mode3_btn2PC1_enter :: "globals \<Rightarrow> globals" where
  "on_setup_mode3_btn2PC1_enter s = s"

definition on_setup_mode3_btn2PC2_enter :: "globals \<Rightarrow> globals" where
  "on_setup_mode3_btn2PC2_enter s = s"

definition on_setup_exit_enter :: "globals \<Rightarrow> globals" where
  "on_setup_exit_enter s =
     updateDisplay ''set''
       (s\<lparr>btn1 := attachLongPressStop LongPressToRun (btn1 s),
          btn2 := attachLongPressStop LongPressToRun (btn2 s)\<rparr>)"

definition on_setup_exit_exit :: "globals \<Rightarrow> globals" where
  "on_setup_exit_exit s = s\<lparr>trace := trace s @ [Delay 2000]\<rparr>"

text \<open>The \<open>State\<close> objects: each names its entry action, \<open>state_setup_exit\<close> also an exit action.\<close>

fun on_enter :: "State \<Rightarrow> globals \<Rightarrow> globals" where
  "on_enter state_init = on_init_enter"
| "on_enter state_run = on_run_enter"
| "on_enter state_setup_mode = on_setup_mode_enter"
| "on_enter state_setup_midi = on_setup_midi_enter"
| "on_enter state_setup_mode1 = on_setup_mode1_enter"
| "on_enter state_setup_mode1_low = on_setup_mode1_low_enter"
| "on_enter state_setup_mode1_hi = on_setup_mode1_hi_enter"
| "on_enter state_setup_mode2_btn1 = on_setup_mode2_btn1_enter"
| "on_enter state_setup_mode2_btn2 = on_setup_mode2_btn2_enter"
| "on_enter state_setup_mode3_btn1PC1 = on_setup_mode3_btn1PC1_enter"
| "on_enter state_setup_mode3_btn1PC2 = on_setup_mode3_btn1PC2_enter"
| "on_enter state_setup_mode3_btn2PC1 = on_setup_mode3_btn2PC1_enter"
| "on_enter state_setup_mode3_btn2PC2 = on_setup_mode3_btn2PC2_enter"
| "on_enter state_setup_mode2 = on_setup_mode2_enter"
| "on_enter state_setup_mode3 = on_setup_mode3_enter"
| "on_enter state_setup_exit = on_setup_exit_enter"

fun on_exit :: "State \<Rightarrow> globals \<Rightarrow> globals" where
  "on_exit state_setup_exit = on_setup_exit_exit"
| "on_exit _ = (\<lambda>s. s)"

section \<open>The state machine\<close>

text \<open>The \<open>add_transition\<close> calls of \<open>setup()\<close>, in their order: source, target, trigger.\<close>

definition main_fsm_transitions :: "(State \<times> State \<times> cint) list" where
  "main_fsm_transitions =
    [(state_run, state_setup_mode, TO_SETUP_MODE),
     (state_setup_mode, state_setup_midi, TO_SETUP_MIDI),
     (state_setup_mode, state_setup_exit, TO_SETUP_EXIT),
     (state_setup_midi, state_setup_mode1, TO_SETUP_MODE1),
     (state_setup_midi, state_setup_exit, TO_SETUP_EXIT),
     (state_setup_mode1, state_setup_mode2, TO_SETUP_MODE2),
     (state_setup_mode1, state_setup_mode1_low, TO_SETUP_MODE1_LOW),
     (state_setup_mode1_low, state_setup_mode1_hi, TO_SETUP_MODE1_HI),
     (state_setup_mode1_low, state_setup_exit, TO_SETUP_EXIT),
     (state_setup_mode1_hi, state_setup_mode2, TO_SETUP_MODE2),
     (state_setup_mode1_hi, state_setup_exit, TO_SETUP_EXIT),
     (state_setup_mode1, state_setup_exit, TO_SETUP_EXIT),
     (state_setup_mode2, state_setup_mode3, TO_SETUP_MODE3),
     (state_setup_mode2, state_setup_mode2_btn1, TO_SETUP_MODE2_BTN1),
     (state_setup_mode2_btn1, state_setup_mode2_btn2, TO_SETUP_MODE2_BTN2),
     (state_setup_mode2_btn1, state_setup_exit, TO_SETUP_EXIT),
     (state_setup_mode2_btn2, state_setup_mode3, TO_SETUP_MODE3),
     (state_setup_mode2_btn2, state_setup_exit, TO_SETUP_EXIT),
     (state_setup_mode3, state_setup_exit, TO_SETUP_EXIT),
     (state_setup_mode3, state_setup_mode, TO_SETUP_MODE_START),
     (state_setup_mode3, state_setup_mode3_btn1PC1, TO_SETUP_MODE3_BTN1_PC1),
     (state_setup_mode3_btn1PC1, state_setup_mode3_btn1PC2, TO_SETUP_MODE3_BTN1_PC2),
     (state_setup_mode3_btn1PC2, state_setup_mode3_btn2PC1, TO_SETUP_MODE3_BTN2_PC1),
     (state_setup_mode3_btn2PC1, state_setup_mode3_btn2PC2, TO_SETUP_MODE3_BTN2_PC2),
     (state_setup_mode3_btn2PC2, state_setup_exit, TO_SETUP_EXIT),
     (state_setup_exit, state_run, TO_RUN)]"

text \<open>
  Modelled from the spec: the Fsm library is not part of the sources. A transition runs the
  exit action of its source, then the entry action of its target, then makes the target
  the current state. \<open>trigger\<close> takes the first transition of the table that leaves the
  current state on the given code; with none, or before the machine has started, it does
  nothing. (The model also notes the code in \<open>triggered\<close>.) \<open>run_machine\<close>, called once
  per \<open>loop()\<close>, enters the initial state on its first call; later calls take the timed transition from \<open>state_init\<close> to \<open>state_run\<close> once
  \<open>INIT_SHOWTIME\<close> has elapsed, which the argument \<open>expired\<close> says.
\<close>

definition make_transition :: "State \<Rightarrow> State \<Rightarrow> globals \<Rightarrow> globals" where
  "make_transition state_from state_to s =
     (let s1 = on_exit state_from s;
          s2 = on_enter state_to s1
      in s2\<lparr>main_fsm := (main_fsm s2)\<lparr>m_current_state := state_to\<rparr>\<rparr>)"

definition trigger :: "cint \<Rightarrow> globals \<Rightarrow> globals" where
  "trigger ev s =
     (let s1 = s\<lparr>triggered := triggered s @ [ev]\<rparr>
      in if m_initialized (main_fsm s1)
         then (case find (\<lambda>(state_from, state_to, e).
                            state_from = m_current_state (main_fsm s1) \<and> e = ev)
                         main_fsm_transitions of
                 None \<Rightarrow> s1
               | Some (state_from, state_to, e) \<Rightarrow> make_transition state_from state_to s1)
         else s1)"

definition run_machine :: "bool \<Rightarrow> globals \<Rightarrow> globals" where
  "run_machine expired s =
     (if \<not> m_initialized (main_fsm s)
      then on_enter (m_current_state (main_fsm s))
             (s\<lparr>main_fsm := (main_fsm s)\<lparr>m_initialized := True\<rparr>\<rparr>)
      else if m_current_state (main_fsm s) = state_init \<and> expired
      then make_transition state_init state_run s
      else s)"

section \<open>Settings: defaults, save, load\<close>

text \<open>
  Modelled from the spec: the EEPROM library is not part of the sources. The store is
  byte-addressable; \<open>put\<close> writes the bytes of the object from the address on, \<open>get\<close>
  reads them back. \<open>settingsStruct\<close> is ten bytes, in the order of its declaration.
\<close>

definition EEPROM_put :: "byte \<Rightarrow> settingsStruct \<Rightarrow> (nat \<Rightarrow> byte) \<Rightarrow> (nat \<Rightarrow> byte)" where
  "EEPROM_put idx t mem =
     mem(unat idx := sversion t,
         unat idx + 1 := midiChannel t,
         unat idx + 2 := mode1_lowlimitPC t,
         unat idx + 3 := mode1_highlimitPC t,
         unat idx + 4 := mode2_btn1PC t,
         unat idx + 5 := mode2_btn2PC t,
         unat idx + 6 := mode3_btn1PC1 t,
         unat idx + 7 := mode3_btn1PC2 t,
         unat idx + 8 := mode3_btn2PC1 t,
         unat idx + 9 := mode3_btn2PC2 t)"

definition EEPROM_get :: "byte \<Rightarrow> (nat \<Rightarrow> byte) \<Rightarrow> settingsStruct" where
  "EEPROM_get idx mem =
     \<lparr>sversion = mem (unat idx),
      midiChannel = mem (unat idx + 1),
      mode1_lowlimitPC = mem (unat idx + 2),
      mode1_highlimitPC = mem (unat idx + 3),
      mode2_btn1PC = mem (unat idx + 4),
      mode2_btn2PC = mem (unat idx + 5),
      mode3_btn1PC1 = mem (unat idx + 6),
      mode3_btn1PC2 = mem (unat idx + 7),
      mode3_btn2PC1 = mem (unat idx + 8),
      mode3_btn2PC2 = mem (unat idx + 9)\<rparr>"

definition loadDefaultSettings :: "globals \<Rightarrow> globals" where
  "loadDefaultSettings s =
     s\<lparr>settings := (settings s)
          \<lparr>sversion := ucast CONFIG_VERSION,
           midiChannel := 1,
           mode1_lowlimitPC := 0,
           mode1_highlimitPC := 16,
           mode2_btn1PC := 17,
           mode2_btn2PC := 18,
           mode3_btn1PC1 := 19,
           mode3_btn1PC2 := 20,
           mode3_btn2PC1 := 21,
           mode3_btn2PC2 := 22\<rparr>\<rparr>"

definition saveSettings :: "globals \<Rightarrow> globals" where
  "saveSettings s =
     s\<lparr>EEPROM := EEPROM_put CONFIG_START_ADDRESS (settings s) (EEPROM s),
       trace := trace s @ [EepromPut CONFIG_START_ADDRESS (settings s)]\<rparr>"

definition readSettings :: "globals \<Rightarrow> globals" where
  "readSettings s =
     (let s1 = s\<lparr>settings := EEPROM_get CONFIG_START_ADDRESS (EEPROM s)\<rparr>
      in if ucast (sversion (settings s1)) \<noteq> CONFIG_VERSION then loadDefaultSettings s1 else s1)"

section \<open>Long-press-stop handlers\<close>

definition longPressFromRun :: "globals \<Rightarrow> globals" where
  "longPressFromRun s =
     (let s1 = (if btn1_state s = 1 \<and> btn2_state s = 1 then trigger TO_SETUP_MODE s
                else s)
      in s1\<lparr>btn2_state := 0, btn1_state := 0\<rparr>)"

definition longPressFromSetupMode :: "globals \<Rightarrow> globals" where
  "longPressFromSetupMode s =
     (let s1 = (if btn1_state s = 1 \<and> btn2_state s = 0 then trigger TO_SETUP_EXIT s
                else if btn1_state s = 0 \<and> btn2_state s = 1 then trigger TO_SETUP_MIDI s
                else s)
      in s1\<lparr>btn2_state := 0, btn1_state := 0\<rparr>)"

definition longPressFromSetupMidi :: "globals \<Rightarrow> globals" where
  "longPressFromSetupMidi s =
     (let s1 = (if btn1_state s = 1 \<and> btn2_state s = 0 then trigger TO_SETUP_EXIT s
                else if btn1_state s = 0 \<and> btn2_state s = 1 then trigger TO_SETUP_MODE1 s
                else s)
      in s1\<lparr>btn2_state := 0, btn1_state := 0\<rparr>)"

definition longPressFromSetupMode1 :: "globals \<Rightarrow> globals" where
  "longPressFromSetupMode1 s =
     (let s1 = (if btn1_state s = 1 \<and> btn2_state s = 1 then trigger TO_SETUP_MODE1_LOW s
                else if btn1_state s = 0 \<and> btn2_state s = 1 then trigger TO_SETUP_MODE2 s
                else if btn1_state s = 1 \<and> btn2_state s = 0 then trigger TO_SETUP_EXIT s
                else s)
      in s1\<lparr>btn2_state := 0, btn1_state := 0\<rparr>)"

definition longPressFromSetupMode1Low :: "globals \<Rightarrow> globals" where
  "longPressFromSetupMode1Low s =
     (let s1 = (if btn1_state s = 1 \<and> btn2_state s = 0 then trigger TO_SETUP_EXIT s
                else if btn1_state s = 0 \<and> btn2_state s = 1 then trigger TO_SETUP_MODE1_HI s
                else s)
      in s1\<lparr>btn2_state := 0, btn1_state := 0\<rparr>)"

definition longPressFromSetupMode1Hi :: "globals \<Rightarrow> globals" where
  "longPressFromSetupMode1Hi s =
     (let s1 = (if btn1_state s = 1 \<and> btn2_state s = 0 then trigger TO_SETUP_EXIT s
                else if btn1_state s = 1 \<and> btn2_state s = 1 then trigger TO_SETUP_MODE2 s
                else s)
      in s1\<lparr>btn2_state := 0, btn1_state := 0\<rparr>)"

definition longPressFromSetupMode2 :: "globals \<Rightarrow> globals" where
  "longPressFromSetupMode2 s =
     (let s1 = (if btn1_state s = 1 \<and> btn2_state s = 0 then trigger TO_SETUP_EXIT s
                else if btn1_state s = 1 \<and> btn2_state s = 1 then trigger TO_SETUP_MODE2_BTN1 s
                else s)
      in s1\<lparr>btn2_state := 0, btn1_state := 0\<rparr>)"

definition longPressFromSetupMode2Btn1 :: "globals \<Rightarrow> globals" where
  "longPressFromSetupMode2Btn1 s =
     (let s1 = (if btn1_state s = 1 \<and> btn2_state s = 0 then trigger TO_SETUP_EXIT s
                else if btn1_state s = 1 \<and> btn2_state s = 1 then trigger TO_SETUP_MODE2_BTN2 s
                else s)
      in s1\<lparr>btn2_state := 0, btn1_state := 0\<rparr>)"

definition longPressFromSetupMode2Btn2 :: "globals \<Rightarrow> globals" where
  "longPressFromSetupMode2Btn2 s =
     (let s1 = (if btn1_state s = 1 \<and> btn2_state s = 0 then trigger TO_SETUP_EXIT s
                else if btn1_state s = 1 \<and> btn2_state s = 1 then trigger TO_SETUP_MODE3 s
                else s)
      in s1\<lparr>btn2_state := 0, btn1_state := 0\<rparr>)"

definition longPressFromSetupMode3 :: "globals \<Rightarrow> globals" where
  "longPressFromSetupMode3 s =
     (let s1 = (if btn1_state s = 1 \<and> btn2_state s = 0 then trigger TO_SETUP_EXIT s
                else if btn1_state s = 0 \<and> btn2_state s = 1 then trigger TO_SETUP_MODE_START s
                else s)
      in s1\<lparr>btn2_state := 0, btn1_state := 0\<rparr>)"

definition longPressToRun :: "globals \<Rightarrow> globals" where
  "longPressToRun s =
     (let s1 = (if btn1_state s = 1 \<and> btn2_state s = 1
                then trigger TO_RUN (updateDisplay ''save'' (saveSettings s))
                else if btn1_state s = 1 \<and> btn2_state s = 0
                then trigger TO_RUN (updateDisplay ''ret'' s)
                else s)
      in s1\<lparr>btn2_state := 0, btn1_state := 0\<rparr>)"

section \<open>Start-up and the event loop\<close>

text \<open>
  At power-on the globals are zero, no handler is attached, the machine is constructed on
  \<open>state_init\<close> and has not run; the EEPROM holds whatever it held.
\<close>

definition power_on :: "(nat \<Rightarrow> byte) \<Rightarrow> globals" where
  "power_on mem =
     \<lparr>mode1_currentPC = 0, mode3_current_btn1PC = 0, mode3_current_btn2PC = 0,
      btn1_state = 0, btn2_state = 0, run_mode = 0,
      settings = \<lparr>sversion = 0, midiChannel = 0, mode1_lowlimitPC = 0, mode1_highlimitPC = 0,
                  mode2_btn1PC = 0, mode2_btn2PC = 0, mode3_btn1PC1 = 0, mode3_btn1PC2 = 0,
                  mode3_btn2PC1 = 0, mode3_btn2PC2 = 0\<rparr>,
      btn1 = \<lparr>clickFunc = None, longPressStartFunc = None, longPressStopFunc = None\<rparr>,
      btn2 = \<lparr>clickFunc = None, longPressStartFunc = None, longPressStopFunc = None\<rparr>,
      main_fsm = \<lparr>m_current_state = state_init, m_initialized = False\<rparr>,
      EEPROM = mem, trace = [], triggered = []\<rparr>"

text \<open>\<open>setup()\<close>; its \<open>add_transition\<close> calls are the table \<open>main_fsm_transitions\<close>.\<close>

definition setup_fn :: "globals \<Rightarrow> globals" where
  "setup_fn s =
     (let s1 = readSettings s;
          s2 = s1\<lparr>trace := trace s1 @ [MidiBegin (midiChannel (settings s1))]\<rparr>;
          s3 = s2\<lparr>mode1_currentPC := ucast (mode1_lowlimitPC (settings s2))\<rparr>;
          s4 = s3\<lparr>mode3_current_btn1PC := ucast (mode3_btn1PC1 (settings s3))\<rparr>;
          s5 = s4\<lparr>mode3_current_btn2PC := ucast (mode3_btn2PC1 (settings s4))\<rparr>;
          s6 = s5\<lparr>run_mode := RUN_MODE1\<rparr>
      in setDisplay s6)"

text \<open>The function a pointer stands for.\<close>

fun call :: "callback \<Rightarrow> globals \<Rightarrow> globals" where
  "call CyclePcDown = cyclePcDown"
| "call CyclePcUp = cyclePcUp"
| "call SendBtn1PC = sendBtn1PC"
| "call SendBtn2PC = sendBtn2PC"
| "call SendBtn1TogglePC = sendBtn1TogglePC"
| "call SendBtn2TogglePC = sendBtn2TogglePC"
| "call LongPressStart1 = longPressStart1"
| "call LongPressStart2 = longPressStart2"
| "call LongPressFromRun = longPressFromRun"
| "call ModeDown = modeDown"
| "call ModeUp = modeUp"
| "call LongPressFromSetupMode = longPressFromSetupMode"
| "call MidiChnDown = midiChnDown"
| "call MidiChnUp = midiChnUp"
| "call LongPressFromSetupMidi = longPressFromSetupMidi"
| "call LongPressFromSetupMode1 = longPressFromSetupMode1"
| "call Mode1LowLimitDecrease = mode1LowLimitDecrease"
| "call Mode1LowLimitIncrease = mode1LowLimitIncrease"
| "call LongPressFromSetupMode1Low = longPressFromSetupMode1Low"
| "call Mode1HiLimitDecrease = mode1HiLimitDecrease"
| "call Mode1HiLimitIncrease = mode1HiLimitIncrease"
| "call LongPressFromSetupMode1Hi = longPressFromSetupMode1Hi"
| "call LongPressFromSetupMode2 = longPressFromSetupMode2"
| "call Mode2Btn1Decrease = mode2Btn1Decrease"
| "call Mode2Btn1Increase = mode2Btn1Increase"
| "call LongPressFromSetupMode2Btn1 = longPressFromSetupMode2Btn1"
| "call Mode2Btn2Decrease = mode2Btn2Decrease"
| "call Mode2Btn2Increase = mode2Btn2Increase"
| "call LongPressFromSetupMode2Btn2 = longPressFromSetupMode2Btn2"
| "call LongPressFromSetupMode3 = longPressFromSetupMode3"
| "call LongPressToRun = longPressToRun"
| "call NullClick = nullClick"

text \<open>
  Modelled from the spec: the input event source is not part of the sources. Per button it
  reports a click, a long-press start or a long-press stop, and the OneButton object then
  calls the function attached for that event kind, if there is one. An \<open>event\<close> is one
  such report, or one call of \<open>main_fsm.run_machine()\<close> by \<open>loop()\<close>.
\<close>

datatype button = Btn1 | Btn2

datatype event =
    Click button
  | LongPressStart button
  | LongPressStop button
  | RunMachine bool

definition fire :: "callback option \<Rightarrow> globals \<Rightarrow> globals" where
  "fire f s = (case f of None \<Rightarrow> s | Some g \<Rightarrow> call g s)"

fun step :: "event \<Rightarrow> globals \<Rightarrow> globals" where
  "step (Click Btn1) s = fire (clickFunc (btn1 s)) s"
| "step (Click Btn2) s = fire (clickFunc (btn2 s)) s"
| "step (LongPressStart Btn1) s = fire (longPressStartFunc (btn1 s)) s"
| "step (LongPressStart Btn2) s = fire (longPressStartFunc (btn2 s)) s"
| "step (LongPressStop Btn1) s = fire (longPressStopFunc (btn1 s)) s"
| "step (LongPressStop Btn2) s = fire (longPressStopFunc (btn2 s)) s"
| "step (RunMachine expired) s = run_machine expired s"

fun run :: "globals \<Rightarrow> event list \<Rightarrow> globals" where
  "run s [] = s"
| "run s (e # es) = run (step e s) es"

section \<open>Reference inputs\<close>

text \<open>Power-on followed by \<open>setup()\<close>, from a given EEPROM content.\<close>

definition boot :: "(nat \<Rightarrow> byte) \<Rightarrow> globals" where
  "boot mem = setup_fn (power_on mem)"

text \<open>An EEPROM that has never been written: every cell reads \<open>0xFF\<close>.\<close>

definition erased :: "nat \<Rightarrow> byte" where
  "erased = (\<lambda>_. 255)"

text \<open>
  Event sequences: the first two calls of \<open>run_machine\<close>, the second after the splash time
  has elapsed, bring the machine to \<open>state_run\<close>; a long press of both buttons, released
  button 1 first; a long press of button 1 alone; a long press of button 2 alone.
\<close>

definition to_run :: "event list" where
  "to_run = [RunMachine False, RunMachine True]"

definition press_both :: "event list" where
  "press_both = [LongPressStart Btn1, LongPressStart Btn2, LongPressStop Btn1, LongPressStop Btn2]"

definition press1 :: "event list" where
  "press1 = [LongPressStart Btn1, LongPressStop Btn1]"

definition press2 :: "event list" where
  "press2 = [LongPressStart Btn2, LongPressStop Btn2]"

text \<open>
  From an erased EEPROM: one click of button 1 in \<open>state_run\<close> (the current value wraps
  from 0 to 16), then into \<open>state_setup_mode1_low\<close>, one click of button 1 there (the
  low limit goes from 0 to 127), and back to \<open>state_run\<close> without saving.
\<close>

definition c5_events :: "event list" where
  "c5_events = to_run @ [Click Btn1] @ press_both @ press2 @ press2 @ press_both
     @ [Click Btn1] @ press1 @ press1"


section \<open>Auxiliary notions for the statements and proofs\<close>

text \<open>The current state of the navigation state machine.\<close>

abbreviation (input) nav :: "globals \<Rightarrow> State" where
  "nav s \<equiv> m_current_state (main_fsm s)"

text \<open>The \<open>EEPROM.put\<close> calls of a trace, in order.\<close>

fun is_put :: "effect \<Rightarrow> bool" where
  "is_put (EepromPut idx t) = True"
| "is_put _ = False"

definition saves :: "effect list \<Rightarrow> effect list" where
  "saves xs = filter is_put xs"

text \<open>
  The functions the sketch attaches with \<open>attachClick\<close>, and the functions it attaches with
  \<open>attachLongPressStop\<close>.
\<close>

fun is_click :: "callback \<Rightarrow> bool" where
  "is_click LongPressStart1 = False"
| "is_click LongPressStart2 = False"
| "is_click LongPressFromRun = False"
| "is_click LongPressFromSetupMode = False"
| "is_click LongPressFromSetupMidi = False"
| "is_click LongPressFromSetupMode1 = False"
| "is_click LongPressFromSetupMode1Low = False"
| "is_click LongPressFromSetupMode1Hi = False"
| "is_click LongPressFromSetupMode2 = False"
| "is_click LongPressFromSetupMode2Btn1 = False"
| "is_click LongPressFromSetupMode2Btn2 = False"
| "is_click LongPressFromSetupMode3 = False"
| "is_click LongPressToRun = False"
| "is_click _ = True"

fun is_stop_handler :: "callback \<Rightarrow> bool" where
  "is_stop_handler LongPressFromRun = True"
| "is_stop_handler LongPressFromSetupMode = True"
| "is_stop_handler LongPressFromSetupMidi = True"
| "is_stop_handler LongPressFromSetupMode1 = True"
| "is_stop_handler LongPressFromSetupMode1Low = True"
| "is_stop_handler LongPressFromSetupMode1Hi = True"
| "is_stop_handler LongPressFromSetupMode2 = True"
| "is_stop_handler LongPressFromSetupMode2Btn1 = True"
| "is_stop_handler LongPressFromSetupMode2Btn2 = True"
| "is_stop_handler LongPressFromSetupMode3 = True"
| "is_stop_handler LongPressToRun = True"
| "is_stop_handler _ = False"

text \<open>
  The long-press-stop handler a button carries while a state is current: the one the entry
  action of the state attaches. \<open>on_setup_mode1_hi_enter\<close> attaches none to button 2, which
  keeps the handler of \<open>state_setup_mode1_low\<close>, the only state that one is entered from.
\<close>

fun stop1_of :: "State \<Rightarrow> callback option" where
  "stop1_of state_run = Some LongPressFromRun"
| "stop1_of state_setup_mode = Some LongPressFromSetupMode"
| "stop1_of state_setup_midi = Some LongPressFromSetupMidi"
| "stop1_of state_setup_mode1 = Some LongPressFromSetupMode1"
| "stop1_of state_setup_mode1_low = Some LongPressFromSetupMode1Low"
| "stop1_of state_setup_mode1_hi = Some LongPressFromSetupMode1Hi"
| "stop1_of state_setup_mode2 = Some LongPressFromSetupMode2"
| "stop1_of state_setup_mode2_btn1 = Some LongPressFromSetupMode2Btn1"
| "stop1_of state_setup_mode2_btn2 = Some LongPressFromSetupMode2Btn2"
| "stop1_of state_setup_mode3 = Some LongPressFromSetupMode3"
| "stop1_of state_setup_exit = Some LongPressToRun"
| "stop1_of _ = None"

fun stop2_of :: "State \<Rightarrow> callback option" where
  "stop2_of state_setup_mode1_hi = Some LongPressFromSetupMode1Low"
| "stop2_of q = stop1_of q"

text \<open>The four states with an empty entry action; no trigger that leads to them is ever fired.\<close>

fun is_stub :: "State \<Rightarrow> bool" where
  "is_stub state_setup_mode3_btn1PC1 = True"
| "is_stub state_setup_mode3_btn1PC2 = True"
| "is_stub state_setup_mode3_btn2PC1 = True"
| "is_stub state_setup_mode3_btn2PC2 = True"
| "is_stub _ = False"

definition click_ok :: "callback option \<Rightarrow> bool" where
  "click_ok f = (case f of None \<Rightarrow> True | Some g \<Rightarrow> is_click g)"

text \<open>
  The invariant of the reachable states: the version byte of the in-memory settings is
  \<open>CONFIG_VERSION\<close>; the attached handlers are those of the current state; before
  \<open>state_run\<close> is first entered nothing is attached and no latch is set; the latches
  hold 0 or 1.
\<close>

definition wf :: "globals \<Rightarrow> bool" where
  "wf s \<longleftrightarrow>
     sversion (settings s) = 1
   \<and> longPressStopFunc (btn1 s) = stop1_of (nav s)
   \<and> longPressStopFunc (btn2 s) = stop2_of (nav s)
   \<and> \<not> is_stub (nav s)
   \<and> click_ok (clickFunc (btn1 s)) \<and> click_ok (clickFunc (btn2 s))
   \<and> (if nav s = state_init
       then longPressStartFunc (btn1 s) = None \<and> longPressStartFunc (btn2 s) = None
            \<and> btn1_state s = 0 \<and> btn2_state s = 0
       else m_initialized (main_fsm s)
            \<and> longPressStartFunc (btn1 s) = Some LongPressStart1
            \<and> longPressStartFunc (btn2 s) = Some LongPressStart2)
   \<and> (btn1_state s = 0 \<or> btn1_state s = 1)
   \<and> (btn2_state s = 0 \<or> btn2_state s = 1)"

text \<open>
  What a long-press-stop on a button does in each state, as the classifier the button
  carries there and the transition table give it: the code passed to \<open>main_fsm.trigger\<close>,
  if any (\<open>fired\<close>), the state entered, if any (\<open>dest\<close>), and what \<open>longPressToRun\<close> does
  before it fires its trigger (\<open>before_exit\<close>). Lemma \<open>stop_summary\<close> below proves this
  summary from the handlers.
\<close>

fun fired :: "State \<Rightarrow> button \<Rightarrow> cint \<Rightarrow> cint \<Rightarrow> cint option" where
  "fired state_run b l1 l2 = (if l1 = 1 \<and> l2 = 1 then Some TO_SETUP_MODE else None)"
| "fired state_setup_mode b l1 l2 =
     (if l1 = 1 \<and> l2 = 0 then Some TO_SETUP_EXIT
      else if l1 = 0 \<and> l2 = 1 then Some TO_SETUP_MIDI else None)"
| "fired state_setup_midi b l1 l2 =
     (if l1 = 1 \<and> l2 = 0 then Some TO_SETUP_EXIT
      else if l1 = 0 \<and> l2 = 1 then Some TO_SETUP_MODE1 else None)"
| "fired state_setup_mode1 b l1 l2 =
     (if l1 = 1 \<and> l2 = 1 then Some TO_SETUP_MODE1_LOW
      else if l1 = 0 \<and> l2 = 1 then Some TO_SETUP_MODE2
      else if l1 = 1 \<and> l2 = 0 then Some TO_SETUP_EXIT else None)"
| "fired state_setup_mode1_low b l1 l2 =
     (if l1 = 1 \<and> l2 = 0 then Some TO_SETUP_EXIT
      else if l1 = 0 \<and> l2 = 1 then Some TO_SETUP_MODE1_HI else None)"
| "fired state_setup_mode1_hi Btn1 l1 l2 =
     (if l1 = 1 \<and> l2 = 0 then Some TO_SETUP_EXIT
      else if l1 = 1 \<and> l2 = 1 then Some TO_SETUP_MODE2 else None)"
| "fired state_setup_mode1_hi Btn2 l1 l2 =
     (if l1 = 1 \<and> l2 = 0 then Some TO_SETUP_EXIT
      else if l1 = 0 \<and> l2 = 1 then Some TO_SETUP_MODE1_HI else None)"
| "fired state_setup_mode2 b l1 l2 =
     (if l1 = 1 \<and> l2 = 0 then Some TO_SETUP_EXIT
      else if l1 = 1 \<and> l2 = 1 then Some TO_SETUP_MODE2_BTN1 else None)"
| "fired state_setup_mode2_btn1 b l1 l2 =
     (if l1 = 1 \<and> l2 = 0 then Some TO_SETUP_EXIT
      else if l1 = 1 \<and> l2 = 1 then Some TO_SETUP_MODE2_BTN2 else None)"
| "fired state_setup_mode2_btn2 b l1 l2 =
     (if l1 = 1 \<and> l2 = 0 then Some TO_SETUP_EXIT
      else if l1 = 1 \<and> l2 = 1 then Some TO_SETUP_MODE3 else None)"
| "fired state_setup_mode3 b l1 l2 =
     (if l1 = 1 \<and> l2 = 0 then Some TO_SETUP_EXIT
      else if l1 = 0 \<and> l2 = 1 then Some TO_SETUP_MODE_START else None)"
| "fired state_setup_exit b l1 l2 =
     (if l1 = 1 \<and> l2 = 1 then Some TO_RUN
      else if l1 = 1 \<and> l2 = 0 then Some TO_RUN else None)"
| "fired _ b l1 l2 = None"

fun dest :: "State \<Rightarrow> button \<Rightarrow> cint \<Rightarrow> cint \<Rightarrow> State option" where
  "dest state_run b l1 l2 = (if l1 = 1 \<and> l2 = 1 then Some state_setup_mode else None)"
| "dest state_setup_mode b l1 l2 =
     (if l1 = 1 \<and> l2 = 0 then Some state_setup_exit
      else if l1 = 0 \<and> l2 = 1 then Some state_setup_midi else None)"
| "dest state_setup_midi b l1 l2 =
     (if l1 = 1 \<and> l2 = 0 then Some state_setup_exit
      else if l1 = 0 \<and> l2 = 1 then Some state_setup_mode1 else None)"
| "dest state_setup_mode1 b l1 l2 =
     (if l1 = 1 \<and> l2 = 1 then Some state_setup_mode1_low
      else if l1 = 0 \<and> l2 = 1 then Some state_setup_mode2
      else if l1 = 1 \<and> l2 = 0 then Some state_setup_exit else None)"
| "dest state_setup_mode1_low b l1 l2 =
     (if l1 = 1 \<and> l2 = 0 then Some state_setup_exit
      else if l1 = 0 \<and> l2 = 1 then Some state_setup_mode1_hi else None)"
| "dest state_setup_mode1_hi Btn1 l1 l2 =
     (if l1 = 1 \<and> l2 = 0 then Some state_setup_exit
      else if l1 = 1 \<and> l2 = 1 then Some state_setup_mode2 else None)"
| "dest state_setup_mode1_hi Btn2 l1 l2 =
     (if l1 = 1 \<and> l2 = 0 then Some state_setup_exit else None)"
| "dest state_setup_mode2 b l1 l2 =
     (if l1 = 1 \<and> l2 = 1 then Some state_setup_mode2_btn1 else None)"
| "dest state_setup_mode2_btn1 b l1 l2 =
     (if l1 = 1 \<and> l2 = 0 then Some state_setup_exit
      else if l1 = 1 \<and> l2 = 1 then Some state_setup_mode2_btn2 else None)"
| "dest state_setup_mode2_btn2 b l1 l2 =
     (if l1 = 1 \<and> l2 = 0 then Some state_setup_exit
      else if l1 = 1 \<and> l2 = 1 then Some state_setup_mode3 else None)"
| "dest state_setup_mode3 b l1 l2 =
     (if l1 = 1 \<and> l2 = 0 then Some state_setup_exit
      else if l1 = 0 \<and> l2 = 1 then Some state_setup_mode else None)"
| "dest state_setup_exit b l1 l2 =
     (if l1 = 1 \<and> l2 = 1 then Some state_run
      else if l1 = 1 \<and> l2 = 0 then Some state_run else None)"
| "dest _ b l1 l2 = None"

definition before_exit :: "globals \<Rightarrow> globals" where
  "before_exit s =
     (if nav s = state_setup_exit
      then (if btn2_state s = 1 then updateDisplay ''save'' (saveSettings s)
            else updateDisplay ''ret'' s)
      else s)"

text \<open>The log of trigger codes after a long-press-stop on button \<open>b\<close> in state \<open>s\<close>.\<close>

definition fired_log :: "button \<Rightarrow> globals \<Rightarrow> cint list" where
  "fired_log b s =
     triggered s @ (case fired (nav s) b (btn1_state s) (btn2_state s) of
                      None \<Rightarrow> [] | Some ev \<Rightarrow> [ev])"

text \<open>
  The confirming gesture: a long-press-stop that finds the machine in \<open>state_setup_exit\<close>
  with both latches set.
\<close>

fun is_stop :: "event \<Rightarrow> bool" where
  "is_stop (LongPressStop b) = True"
| "is_stop _ = False"

definition confirmed_exit :: "event \<Rightarrow> globals \<Rightarrow> bool" where
  "confirmed_exit e s \<longleftrightarrow>
     is_stop e \<and> nav s = state_setup_exit \<and> btn1_state s = 1 \<and> btn2_state s = 1"

text \<open>
  Written from the specification, not from the sketch: the gesture combinations that its
  transition table (section 4.4) lists for each state. The arguments say whether button 1
  and button 2 are latched.
\<close>

fun spec_listed :: "State \<Rightarrow> bool \<Rightarrow> bool \<Rightarrow> bool" where
  "spec_listed state_run b1 b2 = (b1 \<and> b2)"
| "spec_listed state_setup_mode b1 b2 = ((b1 \<and> \<not> b2) \<or> (\<not> b1 \<and> b2))"
| "spec_listed state_setup_midi b1 b2 = ((b1 \<and> \<not> b2) \<or> (\<not> b1 \<and> b2))"
| "spec_listed state_setup_mode1 b1 b2 = (b1 \<or> b2)"
| "spec_listed state_setup_mode1_low b1 b2 = ((b1 \<and> \<not> b2) \<or> (\<not> b1 \<and> b2))"
| "spec_listed state_setup_mode1_hi b1 b2 = b1"
| "spec_listed state_setup_mode2 b1 b2 = (b1 \<or> b2)"
| "spec_listed state_setup_mode2_btn1 b1 b2 = b1"
| "spec_listed state_setup_mode2_btn2 b1 b2 = b1"
| "spec_listed state_setup_mode3 b1 b2 = ((b1 \<and> \<not> b2) \<or> (\<not> b1 \<and> b2))"
| "spec_listed state_setup_exit b1 b2 = b1"
| "spec_listed _ b1 b2 = False"









text \<open>
  What a complete entry action does to a state \<open>s\<close>, giving \<open>s'\<close>: both click handlers,
  both long-press-stop handlers and one status code on the display.
\<close>

definition rebinds ::
  "globals \<Rightarrow> globals \<Rightarrow> callback \<Rightarrow> callback \<Rightarrow> callback \<Rightarrow> string \<Rightarrow> bool" where
  "rebinds s s' click1 click2 stop code \<longleftrightarrow>
     clickFunc (btn1 s') = Some click1 \<and> clickFunc (btn2 s') = Some click2
   \<and> longPressStopFunc (btn1 s') = Some stop \<and> longPressStopFunc (btn2 s') = Some stop
   \<and> trace s' = trace s @ [SetChars code]"

section \<open>Machine integer facts\<close>

lemma sint_ucast_byte: "sint (ucast (b::byte) :: cint) = uint b"
proof -
  have hi: "uint b < 2 ^ 15" using uint_bounded [of b] by simp
  have "- (2 ^ 15) \<le> (0::int)" by simp
  also have "0 \<le> uint b" by simp
  finally have "signed_take_bit 15 (uint b) = uint b"
    using hi by (rule signed_take_bit_int_eq_self)
  then show ?thesis by (simp add: signed_ucast_eq)
qed

lemma ucast_byte_eq_iff: "(ucast (a::byte) :: cint) = ucast b \<longleftrightarrow> a = b"
proof
  assume "(ucast a :: cint) = ucast b"
  then have "sint (ucast a :: cint) = sint (ucast b :: cint)" by simp
  then show "a = b" by (simp add: sint_ucast_byte word_uint_eq_iff)
qed simp

lemma ucast_byte_eq_1_iff: "(ucast (a::byte) :: cint) = 1 \<longleftrightarrow> a = 1"
  using ucast_byte_eq_iff [of a 1] by simp

lemma sint_eq_ucast_iff: "sint (c::cint) = uint (b::byte) \<longleftrightarrow> c = ucast b"
proof
  assume "sint c = uint b"
  then have "sint c = sint (ucast b :: cint)" by (simp add: sint_ucast_byte)
  then show "c = ucast b" by (rule signed_word_eqI)
qed (simp add: sint_ucast_byte)

lemma sint_dec: "- 32768 < sint (c::cint) \<Longrightarrow> sint (c - 1) = sint c - 1"
proof -
  assume a: "- 32768 < sint c"
  have "sint c < 32768" using sint_lt [of c] by simp
  with a have "signed_take_bit 15 (sint c - 1) = sint c - 1"
    by (intro signed_take_bit_int_eq_self; simp)
  then show ?thesis by (simp add: sint_word_diff)
qed

lemma sint_inc: "sint (c::cint) < 32767 \<Longrightarrow> sint (c + 1) = sint c + 1"
proof -
  assume a: "sint c < 32767"
  have "- 32768 \<le> sint c" using sint_ge [of c] by simp
  with a have "signed_take_bit 15 (sint c + 1) = sint c + 1"
    by (intro signed_take_bit_int_eq_self; simp)
  then show ?thesis by (simp add: sint_word_add)
qed


section \<open>The reachable states\<close>

lemmas display_defs = updateDisplay_def updateDisplay_no_def sendProgramChange_def Let_def

lemmas click_defs =
  cyclePcDown_def cyclePcUp_def sendBtn1PC_def sendBtn2PC_def sendBtn1TogglePC_def
  sendBtn2TogglePC_def modeDown_def modeUp_def midiChnDown_def midiChnUp_def
  mode1LowLimitDecrease_def mode1LowLimitIncrease_def mode1HiLimitDecrease_def
  mode1HiLimitIncrease_def mode2Btn1Decrease_def mode2Btn1Increase_def
  mode2Btn2Decrease_def mode2Btn2Increase_def nullClick_def

lemmas enter_defs =
  on_init_enter_def on_run_enter_def on_setup_mode_enter_def on_setup_midi_enter_def
  on_setup_mode1_enter_def on_setup_mode1_low_enter_def on_setup_mode1_hi_enter_def
  on_setup_mode2_enter_def on_setup_mode2_btn1_enter_def on_setup_mode2_btn2_enter_def
  on_setup_mode3_enter_def on_setup_mode3_btn1PC1_enter_def on_setup_mode3_btn1PC2_enter_def
  on_setup_mode3_btn2PC1_enter_def on_setup_mode3_btn2PC2_enter_def on_setup_exit_enter_def
  on_setup_exit_exit_def attachClick_def attachLongPressStart_def attachLongPressStop_def

lemmas fsm_defs = trigger_def make_transition_def main_fsm_transitions_def

lemmas stop_defs =
  longPressFromRun_def longPressFromSetupMode_def longPressFromSetupMidi_def
  longPressFromSetupMode1_def longPressFromSetupMode1Low_def longPressFromSetupMode1Hi_def
  longPressFromSetupMode2_def longPressFromSetupMode2Btn1_def longPressFromSetupMode2Btn2_def
  longPressFromSetupMode3_def longPressToRun_def saveSettings_def

lemma click_frame:
  "is_click f \<Longrightarrow>
     btn1 (call f s) = btn1 s \<and> btn2 (call f s) = btn2 s \<and> main_fsm (call f s) = main_fsm s
   \<and> btn1_state (call f s) = btn1_state s \<and> btn2_state (call f s) = btn2_state s
   \<and> sversion (settings (call f s)) = sversion (settings s)
   \<and> EEPROM (call f s) = EEPROM s
   \<and> saves (trace (call f s)) = saves (trace s)"
  by (cases f) (simp_all add: click_defs display_defs saves_def)

lemma wf_click: "wf s \<Longrightarrow> is_click f \<Longrightarrow> wf (call f s)"
  by (simp add: wf_def click_frame)

lemma wf_boot: "wf (boot mem)"
  by (simp add: wf_def boot_def setup_fn_def power_on_def readSettings_def
      loadDefaultSettings_def setDisplay_def EEPROM_get_def Let_def click_ok_def
      ucast_byte_eq_1_iff)

lemma wf_start: "wf s \<Longrightarrow> wf (step (LongPressStart b) s)"
  by (cases b; cases "nav s = state_init")
     (simp_all add: wf_def fire_def longPressStart1_def longPressStart2_def)

lemma wf_run_machine: "wf s \<Longrightarrow> wf (run_machine expired s)"
  by (cases "nav s")
     (auto simp: wf_def run_machine_def make_transition_def enter_defs display_defs click_ok_def)

lemma stop_summary:
  assumes "wf s"
  shows "step (LongPressStop b) s =
    (case dest (nav s) b (btn1_state s) (btn2_state s) of
       None \<Rightarrow> s\<lparr>triggered := fired_log b s\<rparr>
     | Some q \<Rightarrow> make_transition (nav s) q ((before_exit s)\<lparr>triggered := fired_log b s\<rparr>))
      \<lparr>btn2_state := 0, btn1_state := 0\<rparr>"
proof (cases "nav s = state_init")
  case True
  with assms have l: "btn1_state s = 0" "btn2_state s = 0"
    and n: "longPressStopFunc (btn1 s) = None" "longPressStopFunc (btn2 s) = None"
    by (simp_all add: wf_def)
  have "s\<lparr>btn2_state := 0, btn1_state := 0\<rparr> =
        s\<lparr>btn2_state := btn2_state s, btn1_state := btn1_state s\<rparr>"
    by (simp only: l)
  also have "\<dots> = s" by simp
  finally have "s\<lparr>btn2_state := 0, btn1_state := 0\<rparr> = s" .
  moreover have "step (LongPressStop b) s = s"
    using n by (cases b) (simp_all add: fire_def)
  ultimately show ?thesis using True by (simp add: fired_log_def)
next
  case False
  with assms have i: "m_initialized (main_fsm s)" by (simp add: wf_def)
  from assms have h: "longPressStopFunc (btn1 s) = stop1_of (nav s)"
    "longPressStopFunc (btn2 s) = stop2_of (nav s)" "\<not> is_stub (nav s)"
    by (simp_all add: wf_def)
  show ?thesis
    using i h False
    by (cases b; cases "nav s")
       (simp_all add: fire_def stop_defs trigger_def main_fsm_transitions_def before_exit_def
          updateDisplay_def fired_log_def Let_def)
qed

lemma on_exit_frame:
  "settings (on_exit q s) = settings s" "EEPROM (on_exit q s) = EEPROM s"
  "btn1_state (on_exit q s) = btn1_state s" "btn2_state (on_exit q s) = btn2_state s"
  "main_fsm (on_exit q s) = main_fsm s" "btn1 (on_exit q s) = btn1 s"
  "btn2 (on_exit q s) = btn2 s" "saves (trace (on_exit q s)) = saves (trace s)"
  "run_mode (on_exit q s) = run_mode s" "triggered (on_exit q s) = triggered s"
  "mode1_currentPC (on_exit q s) = mode1_currentPC s"
  "mode3_current_btn1PC (on_exit q s) = mode3_current_btn1PC s"
  "mode3_current_btn2PC (on_exit q s) = mode3_current_btn2PC s"
  by (cases q; simp add: on_setup_exit_exit_def saves_def)+

lemma on_enter_frame:
  "settings (on_enter q s) = settings s" "EEPROM (on_enter q s) = EEPROM s"
  "btn1_state (on_enter q s) = btn1_state s" "btn2_state (on_enter q s) = btn2_state s"
  "main_fsm (on_enter q s) = main_fsm s" "saves (trace (on_enter q s)) = saves (trace s)"
  "triggered (on_enter q s) = triggered s"
  "mode1_currentPC (on_enter q s) = mode1_currentPC s"
  "mode3_current_btn1PC (on_enter q s) = mode3_current_btn1PC s"
  "mode3_current_btn2PC (on_enter q s) = mode3_current_btn2PC s"
  by (cases q; simp add: enter_defs display_defs saves_def)+

lemma make_transition_frame:
  "settings (make_transition q q' s) = settings s"
  "EEPROM (make_transition q q' s) = EEPROM s"
  "btn1_state (make_transition q q' s) = btn1_state s"
  "btn2_state (make_transition q q' s) = btn2_state s"
  "nav (make_transition q q' s) = q'"
  "m_initialized (main_fsm (make_transition q q' s)) = m_initialized (main_fsm s)"
  "saves (trace (make_transition q q' s)) = saves (trace s)"
  "triggered (make_transition q q' s) = triggered s"
  "mode1_currentPC (make_transition q q' s) = mode1_currentPC s"
  "mode3_current_btn1PC (make_transition q q' s) = mode3_current_btn1PC s"
  "mode3_current_btn2PC (make_transition q q' s) = mode3_current_btn2PC s"
  by (simp_all add: make_transition_def Let_def on_enter_frame on_exit_frame)

lemma before_exit_frame:
  "settings (before_exit s) = settings s"
  "btn1_state (before_exit s) = btn1_state s" "btn2_state (before_exit s) = btn2_state s"
  "main_fsm (before_exit s) = main_fsm s" "btn1 (before_exit s) = btn1 s"
  "btn2 (before_exit s) = btn2 s" "triggered (before_exit s) = triggered s"
  "mode1_currentPC (before_exit s) = mode1_currentPC s"
  "mode3_current_btn1PC (before_exit s) = mode3_current_btn1PC s"
  "mode3_current_btn2PC (before_exit s) = mode3_current_btn2PC s"
  by (simp_all add: before_exit_def saveSettings_def display_defs)

lemma wf_make_transition:
  assumes "wf s" and "nav s \<noteq> state_init" and "\<not> is_stub q'" and "q' \<noteq> state_init"
    and "q' = state_setup_mode1_hi \<longrightarrow> nav s = state_setup_mode1_low"
  shows "wf ((make_transition q q' ((before_exit s)\<lparr>triggered := x\<rparr>))
              \<lparr>btn2_state := 0, btn1_state := 0\<rparr>)"
  using assms
  by (cases q')
     (simp_all add: wf_def make_transition_def Let_def on_exit_frame before_exit_frame
        enter_defs display_defs click_ok_def)

lemma dest_ok:
  "dest q b l1 l2 = Some q' \<Longrightarrow>
     q \<noteq> state_init \<and> \<not> is_stub q' \<and> q' \<noteq> state_init
     \<and> (q' = state_setup_mode1_hi \<longrightarrow> q = state_setup_mode1_low)"
  by (cases q; cases b) (auto split: if_splits)

lemma wf_stop: "wf s \<Longrightarrow> wf (step (LongPressStop b) s)"
proof -
  assume w: "wf s"
  show ?thesis
  proof (cases "dest (nav s) b (btn1_state s) (btn2_state s)")
    case None
    with w show ?thesis by (simp add: stop_summary wf_def)
  next
    case (Some q')
    from dest_ok [OF Some] w show ?thesis
      by (simp add: stop_summary Some wf_make_transition)
  qed
qed

lemma wf_step: "wf s \<Longrightarrow> wf (step e s)"
proof (cases e)
  case (Click b)
  assume w: "wf s"
  have f: "wf (fire f s)" if "click_ok f" for f
    using that w by (cases f) (simp_all add: fire_def click_ok_def wf_click)
  from w have "click_ok (clickFunc (btn1 s))" "click_ok (clickFunc (btn2 s))"
    by (simp_all add: wf_def)
  then show ?thesis using Click by (cases b) (simp_all add: f)
next
  case (LongPressStart b)
  assume "wf s"
  then show ?thesis using LongPressStart by (simp add: wf_start)
next
  case (LongPressStop b)
  assume "wf s"
  then show ?thesis using LongPressStop by (simp add: wf_stop)
next
  case (RunMachine x)
  assume "wf s"
  then show ?thesis using RunMachine by (simp add: wf_run_machine)
qed

lemma wf_run: "wf s \<Longrightarrow> wf (run s es)"
  by (induction es arbitrary: s) (simp_all add: wf_step)

lemma wf_reachable: "wf (run (boot mem) es)"
  by (simp add: wf_run wf_boot)

lemma run_append: "run s (xs @ ys) = run (run s xs) ys"
  by (induction xs arbitrary: s) simp_all

lemma before_exit_saves:
  "saves (trace (before_exit s)) =
     saves (trace s) @
       (if nav s = state_setup_exit \<and> btn2_state s = 1 then [EepromPut 0 (settings s)] else [])"
  "EEPROM (before_exit s) =
     (if nav s = state_setup_exit \<and> btn2_state s = 1
      then EEPROM_put 0 (settings s) (EEPROM s) else EEPROM s)"
  by (simp_all add: before_exit_def saveSettings_def updateDisplay_def saves_def)

lemma stop_effects:
  assumes w: "wf s"
  shows "btn1_state (step (LongPressStop b) s) = 0"
    and "btn2_state (step (LongPressStop b) s) = 0"
    and "settings (step (LongPressStop b) s) = settings s"
    and "nav (step (LongPressStop b) s) =
          (case dest (nav s) b (btn1_state s) (btn2_state s) of None \<Rightarrow> nav s | Some q \<Rightarrow> q)"
    and "saves (trace (step (LongPressStop b) s)) =
          saves (trace s) @
            (if nav s = state_setup_exit \<and> btn1_state s = 1 \<and> btn2_state s = 1
             then [EepromPut 0 (settings s)] else [])"
    and "EEPROM (step (LongPressStop b) s) =
          (if nav s = state_setup_exit \<and> btn1_state s = 1 \<and> btn2_state s = 1
           then EEPROM_put 0 (settings s) (EEPROM s) else EEPROM s)"
proof -
  let ?c = "nav s = state_setup_exit \<and> btn1_state s = 1 \<and> btn2_state s = 1"
  show "btn1_state (step (LongPressStop b) s) = 0" "btn2_state (step (LongPressStop b) s) = 0"
    by (simp_all add: stop_summary [OF w])
  show "settings (step (LongPressStop b) s) = settings s"
    by (simp add: stop_summary [OF w] make_transition_frame before_exit_frame
        split: option.split)
  show "nav (step (LongPressStop b) s) =
          (case dest (nav s) b (btn1_state s) (btn2_state s) of None \<Rightarrow> nav s | Some q \<Rightarrow> q)"
    by (simp add: stop_summary [OF w] make_transition_frame split: option.split)
  show "saves (trace (step (LongPressStop b) s)) =
          saves (trace s) @ (if ?c then [EepromPut 0 (settings s)] else [])"
    and "EEPROM (step (LongPressStop b) s) =
          (if ?c then EEPROM_put 0 (settings s) (EEPROM s) else EEPROM s)"
  proof (atomize (full), cases "dest (nav s) b (btn1_state s) (btn2_state s)")
    case None
    have "\<not> ?c"
    proof
      assume "?c"
      then have "dest (nav s) b (btn1_state s) (btn2_state s) = Some state_run" by simp
      with None show False by simp
    qed
    then show "saves (trace (step (LongPressStop b) s)) =
          saves (trace s) @ (if ?c then [EepromPut 0 (settings s)] else [])
       \<and> EEPROM (step (LongPressStop b) s) =
          (if ?c then EEPROM_put 0 (settings s) (EEPROM s) else EEPROM s)"
      by (simp add: stop_summary [OF w] None)
  next
    case (Some q)
    have eq: "step (LongPressStop b) s =
        (make_transition (nav s) q ((before_exit s)\<lparr>triggered := fired_log b s\<rparr>))
          \<lparr>btn2_state := 0, btn1_state := 0\<rparr>"
      by (simp add: stop_summary [OF w] Some)
    have l: "btn1_state s = 1" if "nav s = state_setup_exit"
      using Some that by (simp split: if_splits)
    show "saves (trace (step (LongPressStop b) s)) =
          saves (trace s) @ (if ?c then [EepromPut 0 (settings s)] else [])
       \<and> EEPROM (step (LongPressStop b) s) =
          (if ?c then EEPROM_put 0 (settings s) (EEPROM s) else EEPROM s)"
      using l by (cases "nav s = state_setup_exit")
        (simp_all add: eq make_transition_frame before_exit_saves)
  qed
qed

lemma other_effects:
  assumes w: "wf s" and e: "\<not> is_stop e"
  shows "saves (trace (step e s)) = saves (trace s)" and "EEPROM (step e s) = EEPROM s"
proof -
  have c: "saves (trace (fire f s)) = saves (trace s) \<and> EEPROM (fire f s) = EEPROM s"
    if "click_ok f" for f
    using that by (cases f) (simp_all add: fire_def click_ok_def click_frame)
  have st: "saves (trace (step (LongPressStart b) s)) = saves (trace s)
      \<and> EEPROM (step (LongPressStart b) s) = EEPROM s" for b
    using w by (cases b; cases "nav s = state_init")
      (simp_all add: wf_def fire_def longPressStart1_def longPressStart2_def)
  have rm: "saves (trace (run_machine x s)) = saves (trace s)
      \<and> EEPROM (run_machine x s) = EEPROM s" for x
    by (simp add: run_machine_def make_transition_frame on_enter_frame)
  from w have k: "click_ok (clickFunc (btn1 s))" "click_ok (clickFunc (btn2 s))"
    by (simp_all add: wf_def)
  show "saves (trace (step e s)) = saves (trace s)"
  proof (cases e)
    case (Click b)
    then show ?thesis using k c by (cases b) simp_all
  qed (use e st rm in simp_all)
  show "EEPROM (step e s) = EEPROM s"
  proof (cases e)
    case (Click b)
    then show ?thesis using k c by (cases b) simp_all
  qed (use e st rm in simp_all)
qed

section \<open>Saving the settings\<close>

text \<open>
  C1. In every state \<open>s\<close> reachable from power-on, whatever the EEPROM held and whatever
  events came: \<open>setup()\<close> has made no \<open>EEPROM.put\<close> call; an event adds an \<open>EEPROM.put\<close>
  call to the trace, and changes the EEPROM, only when it is a long-press-stop that finds
  the machine in \<open>state_setup_exit\<close> with both latches set; it then adds exactly one call,
  with the in-memory settings, and the machine is in \<open>state_run\<close> afterwards. A whole
  dual long-press in \<open>state_setup_exit\<close> (both starts, then both stops in either order)
  makes exactly one such call and ends in \<open>state_run\<close>.
\<close>

theorem save_only_on_confirmed_exit:
  assumes s: "s = run (boot mem) es"
  shows "saves (trace (boot mem)) = []
    \<and> saves (trace (step e s)) =
         saves (trace s) @ (if confirmed_exit e s then [EepromPut 0 (settings s)] else [])
    \<and> EEPROM (step e s) =
         (if confirmed_exit e s then EEPROM_put 0 (settings s) (EEPROM s) else EEPROM s)
    \<and> (confirmed_exit e s \<longrightarrow> nav (step e s) = state_run)
    \<and> (nav s = state_setup_exit \<longrightarrow>
         saves (trace (run s [LongPressStart Btn1, LongPressStart Btn2,
                             LongPressStop b, LongPressStop b'])) =
           saves (trace s) @ [EepromPut 0 (settings s)]
         \<and> nav (run s [LongPressStart Btn1, LongPressStart Btn2,
                         LongPressStop b, LongPressStop b']) = state_run)"
proof -
  have w: "wf s" unfolding s by (rule wf_reachable)
  have 0: "saves (trace (boot mem)) = []"
    by (simp add: boot_def setup_fn_def power_on_def readSettings_def loadDefaultSettings_def
        setDisplay_def Let_def saves_def)
  have 123: "saves (trace (step e s)) =
         saves (trace s) @ (if confirmed_exit e s then [EepromPut 0 (settings s)] else [])
     \<and> EEPROM (step e s) =
         (if confirmed_exit e s then EEPROM_put 0 (settings s) (EEPROM s) else EEPROM s)
     \<and> (confirmed_exit e s \<longrightarrow> nav (step e s) = state_run)"
  proof (cases "is_stop e")
    case True
    then obtain c where e: "e = LongPressStop c" by (cases e) simp_all
    show ?thesis
      unfolding e by (simp add: stop_effects [OF w] confirmed_exit_def)
  next
    case False
    then show ?thesis by (simp add: other_effects [OF w] confirmed_exit_def)
  qed
  have 4: "saves (trace (run s [LongPressStart Btn1, LongPressStart Btn2,
                             LongPressStop b, LongPressStop b'])) =
           saves (trace s) @ [EepromPut 0 (settings s)]
         \<and> nav (run s [LongPressStart Btn1, LongPressStart Btn2,
                         LongPressStop b, LongPressStop b']) = state_run"
    if x: "nav s = state_setup_exit"
  proof -
    let ?t = "s\<lparr>btn1_state := 1, btn2_state := 1\<rparr>"
    have t: "run s [LongPressStart Btn1, LongPressStart Btn2] = ?t"
      using w x by (simp add: wf_def fire_def longPressStart1_def longPressStart2_def)
    have wt: "wf ?t" using w x by (simp add: wf_def)
    let ?u = "step (LongPressStop b) ?t"
    have wu: "wf ?u" using wt by (rule wf_stop)
    have u: "saves (trace ?u) = saves (trace s) @ [EepromPut 0 (settings s)]"
      "nav ?u = state_run" "btn1_state ?u = 0" "btn2_state ?u = 0"
      using x by (simp_all add: stop_effects [OF wt])
    have v: "saves (trace (step (LongPressStop b') ?u)) = saves (trace ?u)"
      "nav (step (LongPressStop b') ?u) = state_run"
      using u by (simp_all add: stop_effects [OF wu])
    have "run s [LongPressStart Btn1, LongPressStart Btn2, LongPressStop b, LongPressStop b']
        = step (LongPressStop b') ?u"
      using t by simp
    then show ?thesis using u v by simp
  qed
  show ?thesis using 0 123 4 by blast
qed

theorem save_only_on_confirmed_exit_witness:
  "confirmed_exit (LongPressStop Btn1)
     (run (boot erased) (to_run @ press_both @ press1 @ [LongPressStart Btn1, LongPressStart Btn2]))
   \<and> saves (trace (step (LongPressStop Btn1) (run (boot erased)
         (to_run @ press_both @ press1 @ [LongPressStart Btn1, LongPressStart Btn2])))) =
       [EepromPut 0 \<lparr>sversion = 1, midiChannel = 1, mode1_lowlimitPC = 0,
          mode1_highlimitPC = 16, mode2_btn1PC = 17, mode2_btn2PC = 18, mode3_btn1PC1 = 19,
          mode3_btn1PC2 = 20, mode3_btn2PC1 = 21, mode3_btn2PC2 = 22\<rparr>]
   \<and> nav (run (boot erased) (to_run @ press_both @ press1)) = state_setup_exit
   \<and> saves (trace (run (boot erased) (to_run @ press_both @ press1 @ press_both))) =
       [EepromPut 0 \<lparr>sversion = 1, midiChannel = 1, mode1_lowlimitPC = 0,
          mode1_highlimitPC = 16, mode2_btn1PC = 17, mode2_btn2PC = 18, mode3_btn1PC1 = 19,
          mode3_btn1PC2 = 20, mode3_btn2PC1 = 21, mode3_btn2PC2 = 22\<rparr>]
   \<and> nav (run (boot erased) (to_run @ press_both @ press1 @ press_both)) = state_run"
proof -
  let ?es = "to_run @ press_both @ press1"
  let ?s = "run (boot erased) ?es"
  let ?es1 = "to_run @ press_both @ press1 @ [LongPressStart Btn1, LongPressStart Btn2]"
  let ?es2 = "to_run @ press_both @ press1 @ press_both"
  let ?s1 = "run (boot erased) ?es1"
  have n: "nav ?s = state_setup_exit" by code_simp
  have c: "confirmed_exit (LongPressStop Btn1) ?s1" by code_simp
  have e: "saves (trace ?s1) = []" by code_simp
  have t1: "settings ?s1 = \<lparr>sversion = 1, midiChannel = 1, mode1_lowlimitPC = 0,
          mode1_highlimitPC = 16, mode2_btn1PC = 17, mode2_btn2PC = 18, mode3_btn1PC1 = 19,
          mode3_btn1PC2 = 20, mode3_btn2PC1 = 21, mode3_btn2PC2 = 22\<rparr>" by code_simp
  have p: "saves (trace ?s) = []" by code_simp
  have t: "settings ?s = \<lparr>sversion = 1, midiChannel = 1, mode1_lowlimitPC = 0,
          mode1_highlimitPC = 16, mode2_btn1PC = 17, mode2_btn2PC = 18, mode3_btn1PC1 = 19,
          mode3_btn1PC2 = 20, mode3_btn2PC1 = 21, mode3_btn2PC2 = 22\<rparr>" by code_simp
  have "run (boot erased) ?es2 = run (boot erased) (?es @ press_both)" by simp
  also have "\<dots> = run ?s press_both" by (rule run_append)
  finally have r: "run ?s [LongPressStart Btn1, LongPressStart Btn2,
      LongPressStop Btn1, LongPressStop Btn2] = run (boot erased) ?es2"
    by (simp only: press_both_def)
  have a: "saves (trace (step (LongPressStop Btn1) ?s1)) = [EepromPut 0 (settings ?s1)]"
    using save_only_on_confirmed_exit [of ?s1 erased ?es1 "LongPressStop Btn1" Btn1 Btn2] c
    by (simp add: e)
  have b: "saves (trace (run (boot erased) ?es2)) = [EepromPut 0 (settings ?s)]
      \<and> nav (run (boot erased) ?es2) = state_run"
    using save_only_on_confirmed_exit [of ?s erased ?es "LongPressStop Btn1" Btn1 Btn2] n
    unfolding r by (simp add: p)
  show ?thesis using a b c n by (simp add: t t1)
qed

section \<open>Walking through the setup states\<close>

text \<open>
  C7. In every reachable state: a long-press-stop in \<open>state_run\<close> with both latches set
  leads to \<open>state_setup_mode\<close>; in \<open>state_setup_mode\<close> with only the latch of button 2
  set, to \<open>state_setup_midi\<close>; in \<open>state_setup_midi\<close> with only the latch of button 1
  set, to \<open>state_setup_exit\<close>, and all it shows is the status code of that state, so
  \<open>state_setup_mode1\<close> is not entered on the way; in \<open>state_setup_exit\<close> with only the
  latch of button 1 set, to \<open>state_run\<close>, with the settings and the EEPROM unchanged and no
  \<open>EEPROM.put\<close> call.
\<close>

theorem setup_walk_without_save:
  assumes s: "s = run (boot mem) es"
  shows "(nav s = state_run \<and> btn1_state s = 1 \<and> btn2_state s = 1
            \<longrightarrow> nav (step (LongPressStop b) s) = state_setup_mode)
     \<and> (nav s = state_setup_mode \<and> btn1_state s = 0 \<and> btn2_state s = 1
            \<longrightarrow> nav (step (LongPressStop b) s) = state_setup_midi)
     \<and> (nav s = state_setup_midi \<and> btn1_state s = 1 \<and> btn2_state s = 0
            \<longrightarrow> nav (step (LongPressStop b) s) = state_setup_exit
              \<and> trace (step (LongPressStop b) s) = trace s @ [SetChars ''set''])
     \<and> (nav s = state_setup_exit \<and> btn1_state s = 1 \<and> btn2_state s = 0
            \<longrightarrow> nav (step (LongPressStop b) s) = state_run
              \<and> settings (step (LongPressStop b) s) = settings s
              \<and> EEPROM (step (LongPressStop b) s) = EEPROM s
              \<and> saves (trace (step (LongPressStop b) s)) = saves (trace s))"
proof -
  have w: "wf s" unfolding s by (rule wf_reachable)
  have 1: "nav (step (LongPressStop b) s) = state_setup_mode"
    if "nav s = state_run \<and> btn1_state s = 1 \<and> btn2_state s = 1"
    using that by (simp add: stop_effects [OF w])
  have 2: "nav (step (LongPressStop b) s) = state_setup_midi"
    if "nav s = state_setup_mode \<and> btn1_state s = 0 \<and> btn2_state s = 1"
    using that by (simp add: stop_effects [OF w])
  have 3: "nav (step (LongPressStop b) s) = state_setup_exit
              \<and> trace (step (LongPressStop b) s) = trace s @ [SetChars ''set'']"
    if "nav s = state_setup_midi \<and> btn1_state s = 1 \<and> btn2_state s = 0"
    using that
    by (simp add: stop_summary [OF w] before_exit_def make_transition_def
        on_setup_exit_enter_def updateDisplay_def Let_def)
  have 4: "nav (step (LongPressStop b) s) = state_run
              \<and> settings (step (LongPressStop b) s) = settings s
              \<and> EEPROM (step (LongPressStop b) s) = EEPROM s
              \<and> saves (trace (step (LongPressStop b) s)) = saves (trace s)"
    if "nav s = state_setup_exit \<and> btn1_state s = 1 \<and> btn2_state s = 0"
    using that by (simp add: stop_effects [OF w])
  show ?thesis using 1 2 3 4 by blast
qed

theorem setup_walk_without_save_witness:
  "(nav (run (boot erased) (to_run @ [LongPressStart Btn1, LongPressStart Btn2])) = state_run
     \<and> nav (step (LongPressStop Btn1)
          (run (boot erased) (to_run @ [LongPressStart Btn1, LongPressStart Btn2])))
        = state_setup_mode)
   \<and> (nav (run (boot erased) (to_run @ press_both @ [LongPressStart Btn2])) = state_setup_mode
     \<and> nav (step (LongPressStop Btn2)
          (run (boot erased) (to_run @ press_both @ [LongPressStart Btn2])))
        = state_setup_midi)
   \<and> (nav (run (boot erased) (to_run @ press_both @ press2 @ [LongPressStart Btn1]))
        = state_setup_midi
     \<and> nav (step (LongPressStop Btn1)
          (run (boot erased) (to_run @ press_both @ press2 @ [LongPressStart Btn1])))
        = state_setup_exit)
   \<and> (nav (run (boot erased) (to_run @ press_both @ press2 @ press1 @ [LongPressStart Btn1]))
        = state_setup_exit
     \<and> nav (step (LongPressStop Btn1)
          (run (boot erased) (to_run @ press_both @ press2 @ press1 @ [LongPressStart Btn1])))
        = state_run
     \<and> saves (trace (step (LongPressStop Btn1)
          (run (boot erased) (to_run @ press_both @ press2 @ press1 @ [LongPressStart Btn1]))))
        = [])"
proof -
  let ?b = "boot erased"
  let ?e1 = "to_run @ [LongPressStart Btn1, LongPressStart Btn2]"
  let ?e2 = "to_run @ press_both @ [LongPressStart Btn2]"
  let ?e3 = "to_run @ press_both @ press2 @ [LongPressStart Btn1]"
  let ?e4 = "to_run @ press_both @ press2 @ press1 @ [LongPressStart Btn1]"
  have h1: "nav (run ?b ?e1) = state_run \<and> btn1_state (run ?b ?e1) = 1
      \<and> btn2_state (run ?b ?e1) = 1" by code_simp
  have h2: "nav (run ?b ?e2) = state_setup_mode \<and> btn1_state (run ?b ?e2) = 0
      \<and> btn2_state (run ?b ?e2) = 1" by code_simp
  have h3: "nav (run ?b ?e3) = state_setup_midi \<and> btn1_state (run ?b ?e3) = 1
      \<and> btn2_state (run ?b ?e3) = 0" by code_simp
  have h4: "nav (run ?b ?e4) = state_setup_exit \<and> btn1_state (run ?b ?e4) = 1
      \<and> btn2_state (run ?b ?e4) = 0" by code_simp
  have p: "saves (trace (run ?b ?e4)) = []" by code_simp
  show ?thesis
    using setup_walk_without_save [of "run ?b ?e1" erased ?e1 Btn1]
      setup_walk_without_save [of "run ?b ?e2" erased ?e2 Btn2]
      setup_walk_without_save [of "run ?b ?e3" erased ?e3 Btn1]
      setup_walk_without_save [of "run ?b ?e4" erased ?e4 Btn1]
      h1 h2 h3 h4
    by (simp add: p)
qed

section \<open>Gesture latches\<close>

lemma unlisted_dest:
  "\<not> spec_listed q (l1 = 1) (l2 = 1) \<Longrightarrow> l1 = 0 \<or> l1 = 1 \<Longrightarrow> l2 = 0 \<or> l2 = 1 \<Longrightarrow>
     dest q b l1 l2 = None"
  by (cases q; cases b; elim disjE; simp)

lemma unlisted_fired:
  "\<not> spec_listed q (l1 = 1) (l2 = 1) \<Longrightarrow> l1 = 0 \<or> l1 = 1 \<Longrightarrow> l2 = 0 \<or> l2 = 1 \<Longrightarrow>
     fired q b l1 l2 =
       (if q = state_setup_mode1_hi \<and> b = Btn2 \<and> l2 = 1 then Some TO_SETUP_MODE1_HI else None)"
  by (cases q; cases b; elim disjE; simp)

lemma stop_handler_clears:
  "is_stop_handler f \<Longrightarrow> btn1_state (call f t) = 0 \<and> btn2_state (call f t) = 0"
  by (cases f) (simp_all add: stop_defs Let_def)

text \<open>
  A long-press-stop in a reachable state leaves both latches at 0. When the latch
  combination is not one the transition table lists for the current state, the state after
  the event is the state before it with the latches cleared, but for the log of
  \<open>main_fsm.trigger\<close> calls: it grows by \<open>TO_SETUP_MODE1_HI\<close> when the state is
  \<open>state_setup_mode1_hi\<close>, the button is button 2 and its latch is set, and by nothing
  otherwise.
\<close>

lemma unlisted_stop:
  assumes s: "s = run (boot mem) es"
  shows "btn1_state (step (LongPressStop b) s) = 0
     \<and> btn2_state (step (LongPressStop b) s) = 0
     \<and> (\<not> spec_listed (nav s) (btn1_state s = 1) (btn2_state s = 1)
          \<longrightarrow> step (LongPressStop b) s =
               s\<lparr>triggered := triggered s @
                     (if nav s = state_setup_mode1_hi \<and> b = Btn2 \<and> btn2_state s = 1
                      then [TO_SETUP_MODE1_HI] else []),
                  btn2_state := 0, btn1_state := 0\<rparr>)"
proof -
  have w: "wf s" unfolding s by (rule wf_reachable)
  then have l: "btn1_state s = 0 \<or> btn1_state s = 1" "btn2_state s = 0 \<or> btn2_state s = 1"
    by (simp_all add: wf_def)
  have "step (LongPressStop b) s =
               s\<lparr>triggered := triggered s @
                     (if nav s = state_setup_mode1_hi \<and> b = Btn2 \<and> btn2_state s = 1
                      then [TO_SETUP_MODE1_HI] else []),
                  btn2_state := 0, btn1_state := 0\<rparr>"
    if u: "\<not> spec_listed (nav s) (btn1_state s = 1) (btn2_state s = 1)"
    using unlisted_dest [OF u l, of b] unlisted_fired [OF u l, of b]
    by (simp add: stop_summary [OF w] fired_log_def)
  then show ?thesis
    by (simp add: stop_effects [OF w])
qed

text \<open>
  C8 fails in \<open>state_setup_mode1_hi\<close>. \<open>on_setup_mode1_hi_enter\<close> attaches a
  long-press-stop handler to button 1 only, where every sibling entry action attaches one
  to both buttons, so button 2 keeps \<open>longPressFromSetupMode1Low\<close> of the state before.
  From an erased EEPROM, the gestures below lead to \<open>state_setup_mode1_hi\<close> with only the
  latch of button 2 set, a combination that is not listed for this state; the handlers
  attached there are \<open>longPressFromSetupMode1Hi\<close> on button 1 and
  \<open>longPressFromSetupMode1Low\<close> on button 2. The release of button 2 then calls
  \<open>main_fsm.trigger(TO_SETUP_MODE1_HI)\<close>: the log of trigger calls grows by that code.
  The navigation state stays \<open>state_setup_mode1_hi\<close> and both latches end at 0.
\<close>

theorem unlisted_stop_fires_trigger:
  "nav (run (boot erased)
        (to_run @ press_both @ press2 @ press2 @ press_both @ press2 @ [LongPressStart Btn2]))
     = state_setup_mode1_hi
   \<and> btn1_state (run (boot erased)
        (to_run @ press_both @ press2 @ press2 @ press_both @ press2 @ [LongPressStart Btn2])) = 0
   \<and> btn2_state (run (boot erased)
        (to_run @ press_both @ press2 @ press2 @ press_both @ press2 @ [LongPressStart Btn2])) = 1
   \<and> \<not> spec_listed state_setup_mode1_hi False True
   \<and> longPressStopFunc (btn1 (run (boot erased)
        (to_run @ press_both @ press2 @ press2 @ press_both @ press2 @ [LongPressStart Btn2])))
     = Some LongPressFromSetupMode1Hi
   \<and> longPressStopFunc (btn2 (run (boot erased)
        (to_run @ press_both @ press2 @ press2 @ press_both @ press2 @ [LongPressStart Btn2])))
     = Some LongPressFromSetupMode1Low
   \<and> triggered (run (boot erased)
        (to_run @ press_both @ press2 @ press2 @ press_both @ press2 @ [LongPressStart Btn2]))
     = [TO_SETUP_MODE, TO_SETUP_MIDI, TO_SETUP_MODE1, TO_SETUP_MODE1_LOW, TO_SETUP_MODE1_HI]
   \<and> triggered (run (boot erased)
        (to_run @ press_both @ press2 @ press2 @ press_both @ press2 @ press2))
     = [TO_SETUP_MODE, TO_SETUP_MIDI, TO_SETUP_MODE1, TO_SETUP_MODE1_LOW, TO_SETUP_MODE1_HI,
        TO_SETUP_MODE1_HI]
   \<and> nav (run (boot erased)
        (to_run @ press_both @ press2 @ press2 @ press_both @ press2 @ press2))
     = state_setup_mode1_hi
   \<and> btn1_state (run (boot erased)
        (to_run @ press_both @ press2 @ press2 @ press_both @ press2 @ press2)) = 0
   \<and> btn2_state (run (boot erased)
        (to_run @ press_both @ press2 @ press2 @ press_both @ press2 @ press2)) = 0"
  by code_simp

section \<open>Save followed by load\<close>

text \<open>
  C10. In every reachable state the version byte of the in-memory settings is
  \<open>CONFIG_VERSION\<close>, whatever the EEPROM held at power-on and whatever events came, and
  a save followed by a load gives back the same settings record: \<open>readSettings\<close> right
  after \<open>saveSettings\<close>; \<open>readSettings\<close> in any state \<open>t\<close> whose EEPROM is the one
  \<open>saveSettings\<close> wrote, whatever settings \<open>t\<close> holds in memory; and a power cycle, the
  start-up on the EEPROM that \<open>saveSettings\<close> wrote.
\<close>

theorem save_then_load_identity:
  "sversion (settings (run (boot mem) es)) = 1
   \<and> settings (readSettings (saveSettings (run (boot mem) es))) = settings (run (boot mem) es)
   \<and> (EEPROM t = EEPROM (saveSettings (run (boot mem) es))
        \<longrightarrow> settings (readSettings t) = settings (run (boot mem) es))
   \<and> settings (boot (EEPROM (saveSettings (run (boot mem) es)))) = settings (run (boot mem) es)"
proof -
  let ?s = "run (boot mem) es"
  have "wf ?s" by (rule wf_reachable)
  then have v: "sversion (settings ?s) = 1" by (simp add: wf_def)
  have g: "EEPROM_get 0 (EEPROM (saveSettings ?s)) = settings ?s"
    by (simp add: saveSettings_def EEPROM_get_def EEPROM_put_def)
  have r: "settings (readSettings t) = settings ?s"
    if "EEPROM t = EEPROM (saveSettings ?s)" for t
    using that v g by (simp add: readSettings_def Let_def ucast_byte_eq_1_iff)
  have b: "settings (boot m) = settings (readSettings (power_on m))" for m
    by (simp add: boot_def setup_fn_def setDisplay_def Let_def)
  have p: "EEPROM (power_on m) = m" for m by (simp add: power_on_def)
  show ?thesis
    using v r [of "saveSettings ?s"] r [of t] r [OF p] by (simp add: b)
qed

theorem save_then_load_identity_witness:
  "EEPROM (power_on (EEPROM (saveSettings (run (boot erased)
       (to_run @ press_both @ press2 @ [Click Btn2])))))
     = EEPROM (saveSettings (run (boot erased) (to_run @ press_both @ press2 @ [Click Btn2])))
   \<and> midiChannel (settings (power_on (EEPROM (saveSettings (run (boot erased)
       (to_run @ press_both @ press2 @ [Click Btn2])))))) = 0
   \<and> settings (readSettings (power_on (EEPROM (saveSettings (run (boot erased)
       (to_run @ press_both @ press2 @ [Click Btn2])))))) =
     \<lparr>sversion = 1, midiChannel = 2, mode1_lowlimitPC = 0, mode1_highlimitPC = 16,
      mode2_btn1PC = 17, mode2_btn2PC = 18, mode3_btn1PC1 = 19, mode3_btn1PC2 = 20,
      mode3_btn2PC1 = 21, mode3_btn2PC2 = 22\<rparr>"
proof -
  let ?s = "run (boot erased) (to_run @ press_both @ press2 @ [Click Btn2])"
  have a: "settings ?s =
     \<lparr>sversion = 1, midiChannel = 2, mode1_lowlimitPC = 0, mode1_highlimitPC = 16,
      mode2_btn1PC = 17, mode2_btn2PC = 18, mode3_btn1PC1 = 19, mode3_btn1PC2 = 20,
      mode3_btn2PC1 = 21, mode3_btn2PC2 = 22\<rparr>" by code_simp
  have p: "EEPROM (power_on (EEPROM (saveSettings ?s))) = EEPROM (saveSettings ?s)"
    by (simp add: power_on_def)
  have z: "midiChannel (settings (power_on (EEPROM (saveSettings ?s)))) = 0"
    by (simp add: power_on_def)
  show ?thesis
    using save_then_load_identity [of erased "to_run @ press_both @ press2 @ [Click Btn2]"
        "power_on (EEPROM (saveSettings ?s))"] p z
    by (simp add: a)
qed

section \<open>Mode 3: toggling\<close>

text \<open>
  C9. When the current value of a button is one of the two values configured for it,
  two toggle clicks of that button give the current value back; a toggle click of one
  button leaves the current value of the other button unchanged; neither changes the
  settings.
\<close>

theorem mode3_toggle_involution:
  "((mode3_current_btn1PC s = ucast (mode3_btn1PC1 (settings s))
      \<or> mode3_current_btn1PC s = ucast (mode3_btn1PC2 (settings s)))
     \<longrightarrow> mode3_current_btn1PC (sendBtn1TogglePC (sendBtn1TogglePC s)) = mode3_current_btn1PC s)
   \<and> ((mode3_current_btn2PC s = ucast (mode3_btn2PC1 (settings s))
      \<or> mode3_current_btn2PC s = ucast (mode3_btn2PC2 (settings s)))
     \<longrightarrow> mode3_current_btn2PC (sendBtn2TogglePC (sendBtn2TogglePC s)) = mode3_current_btn2PC s)
   \<and> mode3_current_btn2PC (sendBtn1TogglePC s) = mode3_current_btn2PC s
   \<and> mode3_current_btn1PC (sendBtn2TogglePC s) = mode3_current_btn1PC s
   \<and> settings (sendBtn1TogglePC s) = settings s
   \<and> settings (sendBtn2TogglePC s) = settings s"
  by (simp add: sendBtn1TogglePC_def sendBtn2TogglePC_def updateDisplay_no_def
      sendProgramChange_def Let_def ucast_byte_eq_iff)

theorem mode3_toggle_involution_witness:
  "mode3_current_btn1PC (boot erased) = ucast (mode3_btn1PC1 (settings (boot erased)))
   \<and> mode3_current_btn1PC (boot erased) = 19
   \<and> mode3_current_btn1PC (sendBtn1TogglePC (boot erased)) = 20
   \<and> mode3_current_btn1PC (sendBtn1TogglePC (sendBtn1TogglePC (boot erased))) = 19
   \<and> mode3_current_btn2PC (sendBtn2TogglePC (boot erased)) = ucast (mode3_btn2PC2 (settings (sendBtn2TogglePC (boot erased))))
   \<and> mode3_current_btn2PC (sendBtn2TogglePC (boot erased)) = 22
   \<and> mode3_current_btn2PC (sendBtn2TogglePC (sendBtn2TogglePC (sendBtn2TogglePC (boot erased)))) = 22"
proof -
  have a: "mode3_current_btn1PC (boot erased) = ucast (mode3_btn1PC1 (settings (boot erased)))"
    "mode3_current_btn1PC (boot erased) = 19"
    "mode3_current_btn1PC (sendBtn1TogglePC (boot erased)) = 20"
    "mode3_current_btn2PC (sendBtn2TogglePC (boot erased)) = ucast (mode3_btn2PC2 (settings (sendBtn2TogglePC (boot erased))))"
    "mode3_current_btn2PC (sendBtn2TogglePC (boot erased)) = 22"
    by code_simp+
  show ?thesis
    using mode3_toggle_involution [of "boot erased"]
      mode3_toggle_involution [of "sendBtn2TogglePC (boot erased)"] a
    by simp
qed

section \<open>Loading the settings\<close>

text \<open>
  C3. \<open>readSettings\<close> changes nothing but the in-memory settings. When the first stored
  byte differs from \<open>CONFIG_VERSION\<close> they become the defaults record, whatever the other
  stored bytes are; when it matches, every field is the stored byte, unchecked.
\<close>

theorem readSettings_version_gate:
  "readSettings s =
     s\<lparr>settings :=
         (if EEPROM s 0 \<noteq> 1
          then \<lparr>sversion = 1, midiChannel = 1, mode1_lowlimitPC = 0, mode1_highlimitPC = 16,
                mode2_btn1PC = 17, mode2_btn2PC = 18, mode3_btn1PC1 = 19, mode3_btn1PC2 = 20,
                mode3_btn2PC1 = 21, mode3_btn2PC2 = 22\<rparr>
          else \<lparr>sversion = EEPROM s 0, midiChannel = EEPROM s 1,
                mode1_lowlimitPC = EEPROM s 2, mode1_highlimitPC = EEPROM s 3,
                mode2_btn1PC = EEPROM s 4, mode2_btn2PC = EEPROM s 5,
                mode3_btn1PC1 = EEPROM s 6, mode3_btn1PC2 = EEPROM s 7,
                mode3_btn2PC1 = EEPROM s 8, mode3_btn2PC2 = EEPROM s 9\<rparr>)\<rparr>"
  by (simp add: readSettings_def loadDefaultSettings_def EEPROM_get_def ucast_byte_eq_1_iff
      numeral_2_eq_2)

theorem readSettings_version_gate_witness:
  "settings (readSettings (power_on erased)) =
     \<lparr>sversion = 1, midiChannel = 1, mode1_lowlimitPC = 0, mode1_highlimitPC = 16,
      mode2_btn1PC = 17, mode2_btn2PC = 18, mode3_btn1PC1 = 19, mode3_btn1PC2 = 20,
      mode3_btn2PC1 = 21, mode3_btn2PC2 = 22\<rparr>
   \<and> settings (readSettings (power_on (erased(0 := 1, 1 := 200)))) =
     \<lparr>sversion = 1, midiChannel = 200, mode1_lowlimitPC = 255, mode1_highlimitPC = 255,
      mode2_btn1PC = 255, mode2_btn2PC = 255, mode3_btn1PC1 = 255, mode3_btn1PC2 = 255,
      mode3_btn2PC1 = 255, mode3_btn2PC2 = 255\<rparr>"
  using readSettings_version_gate [of "power_on erased"]
    readSettings_version_gate [of "power_on (erased(0 := 1, 1 := 200))"]
  by (simp add: power_on_def erased_def)

section \<open>Mode 1: cycling\<close>

lemma cyclePcDown_current:
  "mode1_currentPC (cyclePcDown s) =
     (if mode1_currentPC s = ucast (mode1_lowlimitPC (settings s))
      then ucast (mode1_highlimitPC (settings s)) else mode1_currentPC s - 1)"
  by (simp add: cyclePcDown_def updateDisplay_no_def sendProgramChange_def Let_def)

lemma cyclePcUp_current:
  "mode1_currentPC (cyclePcUp s) =
     (if mode1_currentPC s = ucast (mode1_highlimitPC (settings s))
      then ucast (mode1_lowlimitPC (settings s)) else mode1_currentPC s + 1)"
  by (simp add: cyclePcUp_def updateDisplay_no_def sendProgramChange_def Let_def)

lemma cyclePc_settings:
  "settings (cyclePcDown s) = settings s" "settings (cyclePcUp s) = settings s"
  by (simp_all add: cyclePcDown_def cyclePcUp_def updateDisplay_no_def sendProgramChange_def
      Let_def)

text \<open>
  C4. With both limits in 0..127, \<open>low < high\<close> and the current value between them,
  \<open>cyclePcDown\<close> at \<open>low\<close> gives \<open>high\<close>, \<open>cyclePcUp\<close> at \<open>high\<close> gives \<open>low\<close>, every
  other call changes the current value by exactly one, and the result is again between
  the limits. The settings are not touched, so the same holds for the next call.
\<close>

theorem mode1_cycle_in_range:
  assumes lo: "lo = mode1_lowlimitPC (settings s)" and hi: "hi = mode1_highlimitPC (settings s)"
    and b: "uint hi \<le> 127" "uint lo < uint hi"
    and c: "uint lo \<le> sint (mode1_currentPC s)" "sint (mode1_currentPC s) \<le> uint hi"
  shows "sint (mode1_currentPC (cyclePcDown s)) =
           (if sint (mode1_currentPC s) = uint lo then uint hi else sint (mode1_currentPC s) - 1)
       \<and> sint (mode1_currentPC (cyclePcUp s)) =
           (if sint (mode1_currentPC s) = uint hi then uint lo else sint (mode1_currentPC s) + 1)
       \<and> uint lo \<le> sint (mode1_currentPC (cyclePcDown s))
       \<and> sint (mode1_currentPC (cyclePcDown s)) \<le> uint hi
       \<and> uint lo \<le> sint (mode1_currentPC (cyclePcUp s))
       \<and> sint (mode1_currentPC (cyclePcUp s)) \<le> uint hi
       \<and> settings (cyclePcDown s) = settings s \<and> settings (cyclePcUp s) = settings s"
proof -
  have nonneg: "0 \<le> uint lo" by simp
  have d: "sint (mode1_currentPC s - 1) = sint (mode1_currentPC s) - 1"
    using c nonneg by (intro sint_dec) linarith
  have u: "sint (mode1_currentPC s + 1) = sint (mode1_currentPC s) + 1"
    using c b by (intro sint_inc) linarith
  have down: "sint (mode1_currentPC (cyclePcDown s)) =
           (if sint (mode1_currentPC s) = uint lo then uint hi else sint (mode1_currentPC s) - 1)"
    by (simp add: cyclePcDown_current lo [symmetric] hi [symmetric] sint_eq_ucast_iff
        sint_ucast_byte d)
  have up: "sint (mode1_currentPC (cyclePcUp s)) =
           (if sint (mode1_currentPC s) = uint hi then uint lo else sint (mode1_currentPC s) + 1)"
    by (simp add: cyclePcUp_current lo [symmetric] hi [symmetric] sint_eq_ucast_iff
        sint_ucast_byte u)
  show ?thesis
    unfolding down up using b c by (simp add: cyclePc_settings)
qed

theorem mode1_cycle_in_range_witness:
  "mode1_lowlimitPC (settings (boot erased)) = 0
   \<and> mode1_highlimitPC (settings (boot erased)) = 16
   \<and> sint (mode1_currentPC (boot erased)) = 0
   \<and> sint (mode1_currentPC (cyclePcDown (boot erased))) = 16
   \<and> sint (mode1_currentPC (cyclePcUp (boot erased))) = 1"
proof -
  have 1: "mode1_lowlimitPC (settings (boot erased)) = 0" by code_simp
  have 2: "mode1_highlimitPC (settings (boot erased)) = 16" by code_simp
  have 3: "mode1_currentPC (boot erased) = 0" by code_simp
  show ?thesis
    using mode1_cycle_in_range [of 0 "boot erased" 16] by (simp add: 1 2 3)
qed

text \<open>
  C5, as stated, fails: with the low limit above the high limit the wrap conditions still
  trigger at equality. After the events \<open>c5_events\<close> the limits are 127 and 16 and the
  current value is 16; the next click of button 2 wraps it to 127. Likewise, after a start
  from stored limits 10 and 5 the first click of button 1 wraps the current value from 10
  to 5.
\<close>

theorem mode1_no_wrap_counterexample:
  "uint (mode1_highlimitPC (settings (run (boot erased) c5_events)))
     < uint (mode1_lowlimitPC (settings (run (boot erased) c5_events)))
   \<and> sint (mode1_currentPC (run (boot erased) c5_events)) = 16
   \<and> nav (run (boot erased) c5_events) = state_run
   \<and> clickFunc (btn2 (run (boot erased) c5_events)) = Some CyclePcUp
   \<and> sint (mode1_currentPC (step (Click Btn2) (run (boot erased) c5_events))) = 127
   \<and> sint (mode1_currentPC (cyclePcDown (boot (erased(0 := 1, 2 := 10, 3 := 5))))) = 5"
  by code_simp

lemma funpow_cyclePcUp_settings: "settings ((cyclePcUp ^^ n) s) = settings s"
  by (induction n) (simp_all add: cyclePc_settings)

lemma funpow_cyclePcDown_settings: "settings ((cyclePcDown ^^ n) s) = settings s"
  by (induction n) (simp_all add: cyclePc_settings)

lemma cyclePcUp_walk:
  assumes "uint (mode1_highlimitPC (settings s)) < uint (mode1_lowlimitPC (settings s))"
    and "uint (mode1_lowlimitPC (settings s)) \<le> sint (mode1_currentPC s)"
    and "sint (mode1_currentPC s) + int n \<le> 32767"
  shows "sint (mode1_currentPC ((cyclePcUp ^^ n) s)) = sint (mode1_currentPC s) + int n"
  using assms(3)
proof (induction n)
  case 0
  then show ?case by simp
next
  case (Suc n)
  let ?t = "(cyclePcUp ^^ n) s"
  have ih: "sint (mode1_currentPC ?t) = sint (mode1_currentPC s) + int n"
    using Suc by simp
  have ne: "mode1_currentPC ?t \<noteq> ucast (mode1_highlimitPC (settings s))"
  proof
    assume "mode1_currentPC ?t = ucast (mode1_highlimitPC (settings s))"
    then have "sint (mode1_currentPC ?t) = uint (mode1_highlimitPC (settings s))"
      by (simp add: sint_ucast_byte)
    with ih assms(1,2) show False by linarith
  qed
  have "sint (mode1_currentPC ?t + 1) = sint (mode1_currentPC ?t) + 1"
    using ih Suc.prems by (intro sint_inc) linarith
  then show ?case
    using ne ih by (simp add: cyclePcUp_current funpow_cyclePcUp_settings)
qed

lemma cyclePcDown_walk:
  assumes "uint (mode1_highlimitPC (settings s)) < uint (mode1_lowlimitPC (settings s))"
    and "sint (mode1_currentPC s) \<le> uint (mode1_highlimitPC (settings s))"
    and "- 32768 \<le> sint (mode1_currentPC s) - int n"
  shows "sint (mode1_currentPC ((cyclePcDown ^^ n) s)) = sint (mode1_currentPC s) - int n"
  using assms(3)
proof (induction n)
  case 0
  then show ?case by simp
next
  case (Suc n)
  let ?t = "(cyclePcDown ^^ n) s"
  have ih: "sint (mode1_currentPC ?t) = sint (mode1_currentPC s) - int n"
    using Suc by simp
  have ne: "mode1_currentPC ?t \<noteq> ucast (mode1_lowlimitPC (settings s))"
  proof
    assume "mode1_currentPC ?t = ucast (mode1_lowlimitPC (settings s))"
    then have "sint (mode1_currentPC ?t) = uint (mode1_lowlimitPC (settings s))"
      by (simp add: sint_ucast_byte)
    with ih assms(1,2) show False by linarith
  qed
  have "sint (mode1_currentPC ?t - 1) = sint (mode1_currentPC ?t) - 1"
    using ih Suc.prems by (intro sint_dec) linarith
  then show ?case
    using ne ih by (simp add: cyclePcDown_current funpow_cyclePcDown_settings)
qed

text \<open>
  C5, amended. With the low limit above the high limit, \<open>cyclePcUp\<close> wraps exactly when
  the current value equals the high limit and \<open>cyclePcDown\<close> exactly when it equals the low
  limit; for every other current value they add or subtract one. So from a current value
  at or above the low limit \<open>n\<close> calls of \<open>cyclePcUp\<close> add \<open>n\<close>, and from a current value
  at or below the high limit \<open>n\<close> calls of \<open>cyclePcDown\<close> subtract \<open>n\<close>, without a wrap,
  as far as the 16-bit \<open>int\<close> reaches.
\<close>

theorem mode1_wrap_on_equality_only:
  assumes "uint (mode1_highlimitPC (settings s)) < uint (mode1_lowlimitPC (settings s))"
  shows "mode1_currentPC (cyclePcUp s) =
           (if mode1_currentPC s = ucast (mode1_highlimitPC (settings s))
            then ucast (mode1_lowlimitPC (settings s)) else mode1_currentPC s + 1)
     \<and> mode1_currentPC (cyclePcDown s) =
           (if mode1_currentPC s = ucast (mode1_lowlimitPC (settings s))
            then ucast (mode1_highlimitPC (settings s)) else mode1_currentPC s - 1)
     \<and> (uint (mode1_lowlimitPC (settings s)) \<le> sint (mode1_currentPC s)
          \<and> sint (mode1_currentPC s) + int n \<le> 32767
        \<longrightarrow> sint (mode1_currentPC ((cyclePcUp ^^ n) s)) = sint (mode1_currentPC s) + int n)
     \<and> (sint (mode1_currentPC s) \<le> uint (mode1_highlimitPC (settings s))
          \<and> - 32768 \<le> sint (mode1_currentPC s) - int n
        \<longrightarrow> sint (mode1_currentPC ((cyclePcDown ^^ n) s)) = sint (mode1_currentPC s) - int n)"
  using assms cyclePcUp_walk [of s n] cyclePcDown_walk [of s n]
  by (simp add: cyclePcUp_current cyclePcDown_current)

theorem mode1_wrap_on_equality_only_witness:
  "uint (mode1_highlimitPC (settings (run (boot erased) c5_events)))
     < uint (mode1_lowlimitPC (settings (run (boot erased) c5_events)))
   \<and> sint (mode1_currentPC (run (boot erased) c5_events)) = 16
   \<and> sint (mode1_currentPC (cyclePcUp (run (boot erased) c5_events))) = 127
   \<and> sint (mode1_currentPC ((cyclePcDown ^^ 20) (run (boot erased) c5_events))) = - 4
   \<and> sint (mode1_currentPC ((cyclePcUp ^^ 200) (cyclePcUp (run (boot erased) c5_events)))) = 327"
proof -
  let ?s = "run (boot erased) c5_events"
  have h: "uint (mode1_highlimitPC (settings ?s)) < uint (mode1_lowlimitPC (settings ?s))"
    by code_simp
  have v: "mode1_highlimitPC (settings ?s) = 16" "mode1_lowlimitPC (settings ?s) = 127"
    "mode1_currentPC ?s = 16" by code_simp+
  have u: "sint (mode1_currentPC (cyclePcUp ?s)) = 127"
    using mode1_wrap_on_equality_only [OF h, of 0] by (simp add: v)
  have s': "settings (cyclePcUp ?s) = settings ?s" by (simp add: cyclePc_settings)
  have h': "uint (mode1_highlimitPC (settings (cyclePcUp ?s)))
      < uint (mode1_lowlimitPC (settings (cyclePcUp ?s)))"
    unfolding s' by (rule h)
  show ?thesis
    using h u mode1_wrap_on_equality_only [OF h, of 20]
      mode1_wrap_on_equality_only [OF h', of 200]
    by (simp add: v s')
qed


section \<open>Value ranges\<close>









lemma cyclePc_last:
  "last (trace (cyclePcDown s)) =
     SendProgramChange (ucast (mode1_currentPC (cyclePcDown s))) (midiChannel (settings s))"
  "last (trace (cyclePcUp s)) =
     SendProgramChange (ucast (mode1_currentPC (cyclePcUp s))) (midiChannel (settings s))"
  by (simp_all add: cyclePcDown_def cyclePcUp_def display_defs)


















section \<open>Entry actions\<close>

lemma String_of_small:
  "String_of 1 = ''1''" "String_of 2 = ''2''" "String_of 3 = ''3''"
  by (simp_all add: String_of_def dec_digits.simps)

text \<open>
  C2, as stated, fails. Entering \<open>state_setup_exit\<close> from \<open>state_setup_midi\<close> leaves the
  click handlers of \<open>state_setup_midi\<close> attached; the entry action of
  \<open>state_setup_mode3_btn1PC1\<close>, run after \<open>setup()\<close>, attaches nothing and displays
  nothing.
\<close>

theorem entry_actions_counterexample:
  "nav (run (boot erased) (to_run @ press_both @ press2)) = state_setup_midi
   \<and> clickFunc (btn1 (run (boot erased) (to_run @ press_both @ press2))) = Some MidiChnDown
   \<and> nav (run (boot erased) (to_run @ press_both @ press2 @ press1)) = state_setup_exit
   \<and> clickFunc (btn1 (run (boot erased) (to_run @ press_both @ press2 @ press1)))
       = Some MidiChnDown
   \<and> clickFunc (btn1 (boot erased)) = None
   \<and> longPressStopFunc (btn1 (boot erased)) = None
   \<and> clickFunc (btn1 (on_enter state_setup_mode3_btn1PC1 (boot erased))) = None
   \<and> longPressStopFunc (btn1 (on_enter state_setup_mode3_btn1PC1 (boot erased))) = None
   \<and> trace (on_enter state_setup_mode3_btn1PC1 (boot erased)) = trace (boot erased)"
  by code_simp

text \<open>
  C2, amended. The entry actions of \<open>state_run\<close> (for run mode 1, 2 or 3),
  \<open>state_setup_mode\<close>, \<open>state_setup_midi\<close>, \<open>state_setup_mode1\<close>, \<open>state_setup_mode1_low\<close>,
  \<open>state_setup_mode2\<close>, \<open>state_setup_mode2_btn1\<close> and \<open>state_setup_mode2_btn2\<close> attach both
  click handlers and both long-press-stop handlers of the state and display its status
  code. That of \<open>state_setup_mode1_hi\<close> attaches both click handlers and the
  long-press-stop handler of button 1 and displays the status code. Those of
  \<open>state_setup_mode3\<close> and \<open>state_setup_exit\<close> attach both long-press-stop handlers and
  display the status code. Those of the four \<open>state_setup_mode3_btn\<close> states do nothing,
  and that of \<open>state_init\<close> only shows the version number.
\<close>

theorem entry_actions_rebind:
  "(run_mode s = 1 \<longrightarrow>
      rebinds s (on_enter state_run s) CyclePcDown CyclePcUp LongPressFromRun ''op 1'')
   \<and> (run_mode s = 2 \<longrightarrow>
      rebinds s (on_enter state_run s) SendBtn1PC SendBtn2PC LongPressFromRun ''op 2'')
   \<and> (run_mode s = 3 \<longrightarrow>
      rebinds s (on_enter state_run s) SendBtn1TogglePC SendBtn2TogglePC LongPressFromRun
        ''op 3'')
   \<and> rebinds s (on_enter state_setup_mode s) ModeDown ModeUp LongPressFromSetupMode ''s op''
   \<and> rebinds s (on_enter state_setup_midi s) MidiChnDown MidiChnUp LongPressFromSetupMidi
        ''s nd''
   \<and> rebinds s (on_enter state_setup_mode1 s) NullClick NullClick LongPressFromSetupMode1
        ''s n1''
   \<and> rebinds s (on_enter state_setup_mode1_low s) Mode1LowLimitDecrease Mode1LowLimitIncrease
        LongPressFromSetupMode1Low ''S LO''
   \<and> rebinds s (on_enter state_setup_mode2 s) NullClick NullClick LongPressFromSetupMode2
        ''s n2''
   \<and> rebinds s (on_enter state_setup_mode2_btn1 s) Mode2Btn1Decrease Mode2Btn1Increase
        LongPressFromSetupMode2Btn1 ''s b1''
   \<and> rebinds s (on_enter state_setup_mode2_btn2 s) Mode2Btn2Decrease Mode2Btn2Increase
        LongPressFromSetupMode2Btn2 ''s b2''
   \<and> clickFunc (btn1 (on_enter state_setup_mode1_hi s)) = Some Mode1HiLimitDecrease
   \<and> clickFunc (btn2 (on_enter state_setup_mode1_hi s)) = Some Mode1HiLimitIncrease
   \<and> longPressStopFunc (btn1 (on_enter state_setup_mode1_hi s)) = Some LongPressFromSetupMode1Hi
   \<and> trace (on_enter state_setup_mode1_hi s) = trace s @ [SetChars ''S HI'']
   \<and> longPressStopFunc (btn1 (on_enter state_setup_mode3 s)) = Some LongPressFromSetupMode3
   \<and> longPressStopFunc (btn2 (on_enter state_setup_mode3 s)) = Some LongPressFromSetupMode3
   \<and> trace (on_enter state_setup_mode3 s) = trace s @ [SetChars ''s n3'']
   \<and> longPressStopFunc (btn1 (on_enter state_setup_exit s)) = Some LongPressToRun
   \<and> longPressStopFunc (btn2 (on_enter state_setup_exit s)) = Some LongPressToRun
   \<and> trace (on_enter state_setup_exit s) = trace s @ [SetChars ''set'']
   \<and> on_enter state_setup_mode3_btn1PC1 s = s
   \<and> on_enter state_setup_mode3_btn1PC2 s = s
   \<and> on_enter state_setup_mode3_btn2PC1 s = s
   \<and> on_enter state_setup_mode3_btn2PC2 s = s
   \<and> on_enter state_init s = s\<lparr>trace := trace s @ [SetNumber 1 1]\<rparr>"
  by (simp add: rebinds_def enter_defs display_defs String_of_small word_sless_alt word_sle_eq)

theorem entry_actions_rebind_witness:
  "run_mode (boot erased) = 1
   \<and> rebinds (boot erased) (on_enter state_run (boot erased))
        CyclePcDown CyclePcUp LongPressFromRun ''op 1''
   \<and> run_mode (modeUp (boot erased)) = 2
   \<and> rebinds (modeUp (boot erased)) (on_enter state_run (modeUp (boot erased)))
        SendBtn1PC SendBtn2PC LongPressFromRun ''op 2''
   \<and> run_mode (modeDown (boot erased)) = 3
   \<and> rebinds (modeDown (boot erased)) (on_enter state_run (modeDown (boot erased)))
        SendBtn1TogglePC SendBtn2TogglePC LongPressFromRun ''op 3''"
proof -
  have a: "run_mode (boot erased) = 1" "run_mode (modeUp (boot erased)) = 2"
    "run_mode (modeDown (boot erased)) = 3" by code_simp+
  show ?thesis
    using entry_actions_rebind [of "boot erased"] entry_actions_rebind [of "modeUp (boot erased)"]
      entry_actions_rebind [of "modeDown (boot erased)"]
    by (simp add: a)
qed

end
